theory Spec2Isabelle
  imports Complex_Main "HOL-Library.Sublist"
begin

section \<open>The edit-shipping-lines relay (src/server.js, lines 1-317)\<close>

text \<open>
  The service is one Express handler, \<^verbatim>\<open>POST /flow/edit-shipping-lines\<close>, in front of the
  Shopify Admin GraphQL API. This theory embeds the handler of lines 163-317 and the helpers
  it calls. (Lines 319-564 of the file are an older, replace-only copy of the same service;
  it is not the subject here.)

  Conventions of the embedding:
  \<^item> A JavaScript string is modelled by its UTF-8 byte sequence (\<^typ>\<open>string\<close>). The regular
    expressions and the prefix test of the source only mention ASCII characters, so they
    mean the same on bytes; \<^verbatim>\<open>Buffer.from(s, 'utf8')\<close> is the identity.
  \<^item> A value that may be \<^verbatim>\<open>undefined\<close> or \<^verbatim>\<open>null\<close> is an \<^typ>\<open>'a option\<close>, \<open>None\<close>
    standing for both. The fields of the request body have the JSON types the handler's
    documentation gives them (strings, a number or numeric string, a boolean).
  \<^item> A JavaScript number is a \<open>jsnum\<close>; \<^verbatim>\<open>parseFloat\<close> on strings is a builtin of the
    runtime and is a parameter \<open>pf\<close> of the model.
  \<^item> The remote platform is a parameter \<open>net\<close>: it answers each HTTP request, knowing the
    requests issued before it. The handler returns its HTTP response together with the list
    of the requests it issued, in order.
  \<^item> \<^verbatim>\<open>throw\<close> is a value of type \<open>thrown\<close> in the left summand.
\<close>

subsection \<open>JavaScript values\<close>

datatype jsnum = Finite rat | NaN | PosInfinity | NegInfinity

text \<open>\<^verbatim>\<open>Number.isFinite\<close>.\<close>

fun isFinite :: "jsnum \<Rightarrow> bool" where
  "isFinite (Finite _) = True"
| "isFinite _ = False"

text \<open>Truthiness of a string that may be absent: \<^verbatim>\<open>!s\<close> holds for undefined, null and ''.\<close>

fun truthy :: "string option \<Rightarrow> bool" where
  "truthy None = False"
| "truthy (Some s) = (s \<noteq> [])"

text \<open>\<^verbatim>\<open>String(s || '')\<close> for a string that may be absent.\<close>

fun String_or_empty :: "string option \<Rightarrow> string" where
  "String_or_empty None = []"
| "String_or_empty (Some s) = s"

text \<open>A template literal \<^verbatim>\<open>${s}\<close> prints an absent value as \<^verbatim>\<open>undefined\<close>.\<close>

fun template :: "string option \<Rightarrow> string" where
  "template None = ''undefined''"
| "template (Some s) = s"

text \<open>
  \<^verbatim>\<open>String.prototype.toLowerCase\<close>, on the ASCII letters. (No character outside ASCII
  lowers to one of the letters of \<^verbatim>\<open>true\<close>, the only string the result is compared with.)
\<close>

definition lower_char :: "char \<Rightarrow> char" where
  "lower_char c =
     (let n = (of_char c :: nat) in if 65 \<le> n \<and> n \<le> 90 then char_of (n + 32) else c)"

definition toLowerCase :: "string \<Rightarrow> string" where
  "toLowerCase s = map lower_char s"

text \<open>
  \<^verbatim>\<open>!String(t).trim()\<close>: the string consists of white space and line terminators only.
  \<open>all_white\<close> reads the UTF-8 encodings of the code points that \<^verbatim>\<open>trim\<close> strips:
  U+0009..U+000D, U+0020, U+00A0, U+1680, U+2000..U+200A, U+2028, U+2029, U+202F, U+205F,
  U+3000, U+FEFF.
\<close>

fun all_white :: "nat list \<Rightarrow> bool" where
  "all_white [] = True"
| "all_white (b # bs) =
     (if (9 \<le> b \<and> b \<le> 13) \<or> b = 32 then all_white bs
      else case bs of
        [] \<Rightarrow> False
      | c # cs \<Rightarrow>
          if b = 194 \<and> c = 160 then all_white cs
          else (case cs of
            [] \<Rightarrow> False
          | d # ds \<Rightarrow>
              if (b = 225 \<and> c = 154 \<and> d = 128)
                \<or> (b = 226 \<and> c = 128 \<and> ((128 \<le> d \<and> d \<le> 138) \<or> d = 168 \<or> d = 169 \<or> d = 175))
                \<or> (b = 226 \<and> c = 129 \<and> d = 159)
                \<or> (b = 227 \<and> c = 128 \<and> d = 128)
                \<or> (b = 239 \<and> c = 187 \<and> d = 191)
              then all_white ds else False))"

definition trim_is_empty :: "string \<Rightarrow> bool" where
  "trim_is_empty s = all_white (map of_char s)"

subsection \<open>Configuration (lines 17-46)\<close>

record env =
  SHOP_DOMAIN_UK :: "string option"
  SHOP_DOMAIN_EU :: "string option"
  SHOP_DOMAIN_US :: "string option"
  SHOPIFY_ADMIN_TOKEN_UK :: "string option"
  SHOPIFY_ADMIN_TOKEN_EU :: "string option"
  SHOPIFY_ADMIN_TOKEN_US :: "string option"
  SHOPIFY_API_VERSION :: "string option"
  FLOW_SECRET_UK :: "string option"
  FLOW_SECRET_EU :: "string option"
  FLOW_SECRET_US :: "string option"
  DEBUG_ERRORS :: "string option"

record region =
  code :: string
  shop :: "string option"
  adminToken :: "string option"
  flowSecret :: "string option"

text \<open>The three candidate regions, filtered by \<^verbatim>\<open>r => r.shop\<close>.\<close>

definition regions :: "env \<Rightarrow> region list" where
  "regions e = filter (\<lambda>r. truthy (shop r))
     [\<lparr>code = ''UK'', shop = SHOP_DOMAIN_UK e, adminToken = SHOPIFY_ADMIN_TOKEN_UK e,
        flowSecret = FLOW_SECRET_UK e\<rparr>,
      \<lparr>code = ''EU'', shop = SHOP_DOMAIN_EU e, adminToken = SHOPIFY_ADMIN_TOKEN_EU e,
        flowSecret = FLOW_SECRET_EU e\<rparr>,
      \<lparr>code = ''US'', shop = SHOP_DOMAIN_US e, adminToken = SHOPIFY_ADMIN_TOKEN_US e,
        flowSecret = FLOW_SECRET_US e\<rparr>]"

text \<open>
  \<^verbatim>\<open>new Map(regions.map(r => [r.shop, r]))\<close> and its \<^verbatim>\<open>get\<close>: of two entries with one key
  the later one wins, hence the \<open>rev\<close>.
\<close>

definition byShop :: "env \<Rightarrow> string \<Rightarrow> region option" where
  "byShop e d = map_of (rev (map (\<lambda>r. (shop r, r)) (regions e))) (Some d)"

text \<open>The API version, with its default \<^verbatim>\<open>'2025-07'\<close> (a destructuring default: for undefined).\<close>

definition apiVersion :: "env \<Rightarrow> string" where
  "apiVersion e = (case SHOPIFY_API_VERSION e of None \<Rightarrow> ''2025-07'' | Some v \<Rightarrow> v)"

text \<open>\<^verbatim>\<open>(DEBUG_ERRORS || '').toLowerCase() === 'true'\<close>, with the default \<^verbatim>\<open>'false'\<close>.\<close>

definition debug :: "env \<Rightarrow> bool" where
  "debug e = (toLowerCase (String_or_empty
     (case DEBUG_ERRORS e of None \<Rightarrow> Some ''false'' | Some v \<Rightarrow> Some v)) = ''true'')"

subsection \<open>Validators (lines 37-43, 67-73)\<close>

text \<open>
  \<^verbatim>\<open>/^[a-z0-9-]+\.myshopify\.com$/.test(String(s || ''))\<close>. The class has no dot, so the
  greedy run of class characters is the only candidate for the label, and what follows it
  must be the literal suffix up to the end of the string.
\<close>

definition label_char :: "char \<Rightarrow> bool" where
  "label_char c = (c \<in> set ''abcdefghijklmnopqrstuvwxyz0123456789-'')"

definition isValidShop :: "string option \<Rightarrow> bool" where
  "isValidShop s =
     (let str = String_or_empty s
      in takeWhile label_char str \<noteq> [] \<and> dropWhile label_char str = ''.myshopify.com'')"

text \<open>
  \<^verbatim>\<open>crypto.timingSafeEqual\<close> on two buffers of one length returns whether they hold the
  same bytes. (Its running time is not part of the model.)
\<close>

definition timingSafeEqual :: "string \<Rightarrow> string \<Rightarrow> bool" where
  "timingSafeEqual A B = (A = B)"

definition tscEq :: "string option \<Rightarrow> string option \<Rightarrow> bool" where
  "tscEq a b =
     (let A = String_or_empty a; B = String_or_empty b
      in length A = length B \<and> timingSafeEqual A B)"

text \<open>\<^verbatim>\<open>/^\d+$/\<close>.\<close>

definition digit_char :: "char \<Rightarrow> bool" where
  "digit_char c = (c \<in> set ''0123456789'')"

definition all_digits :: "string \<Rightarrow> bool" where
  "all_digits s = (s \<noteq> [] \<and> list_all digit_char s)"

definition gid_prefix :: string where
  "gid_prefix = ''gid://shopify/Order/''"

definition toOrderGid :: "string option \<Rightarrow> string option" where
  "toOrderGid maybeGidOrNumeric =
     (let s = String_or_empty maybeGidOrNumeric
      in if s = [] then None
         else if prefix gid_prefix s then Some s
         else if all_digits s then Some (gid_prefix @ s)
         else None)"

text \<open>\<^verbatim>\<open>a || b\<close> on two results of \<open>toOrderGid\<close> (a string it returns is never empty).\<close>

definition or_else :: "string option \<Rightarrow> string option \<Rightarrow> string option" where
  "or_else a b = (if truthy a then a else b)"

subsection \<open>The remote platform and the gateway (lines 58-102)\<close>

text \<open>
  One constructor per GraphQL document of the handler, with its variables:
  \<^verbatim>\<open>GetOrder($id)\<close>, \<^verbatim>\<open>Begin($id)\<close>, \<^verbatim>\<open>Add($id, $title, $price)\<close>,
  \<^verbatim>\<open>Remove($id, $shippingLineId)\<close>, \<^verbatim>\<open>Commit($id)\<close>.
\<close>

datatype gql_op =
    GetOrder string
  | Begin string
  | Add string string jsnum
  | Remove string string
  | Commit string

text \<open>A call of \<^verbatim>\<open>fetch\<close>: the URL, the access-token header and the GraphQL body.\<close>

record fetch_req =
  req_url :: string
  req_token :: string
  req_op :: gql_op

text \<open>
  The response data, as far as the handler reads it. A field is optional where the handler
  guards its access (\<^verbatim>\<open>?.\<close>, \<^verbatim>\<open>||\<close>, \<^verbatim>\<open>!\<close>).
\<close>

record user_error =
  ue_field :: "string list option"
  ue_message :: string

record calculated_order =
  co_id :: "string option"

record payload =
  calculatedOrder :: "calculated_order option"
  userErrors :: "user_error list option"

record money =
  amount :: "string option"

record price_set =
  shopMoney :: "money option"

record shipping_line =
  sl_id :: string
  sl_title :: string
  originalPriceSet :: "price_set option"

record connection =
  nodes :: "shipping_line option list option"

record shop_order =
  order_name :: string
  shippingLines :: "connection option"

record gql_data =
  data_order :: "shop_order option"
  orderEditBegin :: "payload option"
  orderEditAddShippingLine :: "payload option"
  orderEditRemoveShippingLine :: "payload option"
  orderEditCommit :: "payload option"

record gql_error =
  ge_message :: string

text \<open>
  An HTTP response: \<^verbatim>\<open>r.ok\<close>, \<^verbatim>\<open>r.status\<close>, the text of its body and
  \<^verbatim>\<open>safeJson(text)\<close>, which is \<open>None\<close> when the text does not parse or parses to a falsy
  value (the \<^verbatim>\<open>!json\<close> test).
\<close>

record gql_json =
  errors :: "gql_error list option"
  data :: "gql_data option"

record http_response =
  resp_ok :: bool
  resp_status :: nat
  resp_text :: string
  resp_json :: "gql_json option"

text \<open>
  \<^verbatim>\<open>timedFetch\<close> followed by \<^verbatim>\<open>r.text()\<close>: the promise rejects (a network error, or the
  abort after \<^verbatim>\<open>timeoutMs\<close>) or a response arrives.
\<close>

datatype fetch_result = Rejected string | Responded http_response

type_synonym net = "fetch_req list \<Rightarrow> fetch_req \<Rightarrow> fetch_result"

text \<open>
  What the code throws, one constructor per \<^verbatim>\<open>throw\<close> site:
  \<^item> \<open>TokenNotConfigured c\<close>: \<^verbatim>\<open>Error(`Shopify token not configured for shop (${c})`)\<close>;
  \<^item> \<open>FetchRejected m\<close>: the rejection of \<^verbatim>\<open>timedFetch\<close> or \<^verbatim>\<open>r.text()\<close>;
  \<^item> \<open>GraphQLHttp st txt\<close>: \<^verbatim>\<open>Error(`Shopify GraphQL HTTP ${st}: ${txt.slice(0, 800)}`)\<close>;
  \<^item> \<open>GraphQLNonJson txt\<close>: \<^verbatim>\<open>Error(`Shopify GraphQL non-JSON: ${txt.slice(0, 800)}`)\<close>;
  \<^item> \<open>GraphQLErrors es\<close>:
    \<^verbatim>\<open>Error(`Shopify GraphQL errors: ${JSON.stringify(es).slice(0, 1200)}`)\<close>;
  \<^item> \<open>UserErrors step es\<close>: \<^verbatim>\<open>Error(`${step} userErrors: ${JSON.stringify(es)}`)\<close>;
  \<^item> \<open>TypeError p\<close>: reading property \<open>p\<close> of an undefined or null \<^verbatim>\<open>data\<close>.
\<close>

datatype thrown =
    TokenNotConfigured string
  | FetchRejected string
  | GraphQLHttp nat string
  | GraphQLNonJson string
  | GraphQLErrors "gql_error list"
  | UserErrors string "user_error list"
  | TypeError string

text \<open>\<^verbatim>\<open>xs?.length\<close> as a condition.\<close>

fun has_length :: "'a list option \<Rightarrow> bool" where
  "has_length None = False"
| "has_length (Some xs) = (xs \<noteq> [])"

text \<open>The request of lines 77-87: the URL of the region's shop, its token, the document.\<close>

definition fetch_request :: "env \<Rightarrow> region \<Rightarrow> gql_op \<Rightarrow> fetch_req" where
  "fetch_request e rg opn =
     \<lparr>req_url = ''https://'' @ template (shop rg) @ ''/admin/api/'' @ apiVersion e
                  @ ''/graphql.json'',
      req_token = String_or_empty (adminToken rg),
      req_op = opn\<rparr>"

text \<open>What lines 79-96 make of the outcome of the fetch: a throw, or \<^verbatim>\<open>json.data\<close>.\<close>

definition gateway_result :: "fetch_result \<Rightarrow> thrown + gql_data option" where
  "gateway_result fr =
     (case fr of
        Rejected m \<Rightarrow> Inl (FetchRejected m)
      | Responded r \<Rightarrow>
          if \<not> resp_ok r then Inl (GraphQLHttp (resp_status r) (resp_text r))
          else (case resp_json r of
                  None \<Rightarrow> Inl (GraphQLNonJson (resp_text r))
                | Some j \<Rightarrow>
                    if has_length (errors j)
                    then Inl (GraphQLErrors (case errors j of None \<Rightarrow> [] | Some es \<Rightarrow> es))
                    else Inr (data j)))"

text \<open>
  \<open>shopifyGraphQL\<close> (lines 75-97). The last argument is the list of the requests issued so
  far; the result carries the list extended by this call's request, if one was issued.
\<close>

definition shopifyGraphQL ::
  "env \<Rightarrow> net \<Rightarrow> region \<Rightarrow> gql_op \<Rightarrow> fetch_req list \<Rightarrow>
     (thrown + gql_data option) \<times> fetch_req list" where
  "shopifyGraphQL e nt rg opn issued =
     (if \<not> truthy (adminToken rg)
      then (Inl (TokenNotConfigured (if code rg = [] then ''??'' else code rg)), issued)
      else let rq = fetch_request e rg opn
           in (gateway_result (nt issued rq), issued @ [rq]))"

text \<open>
  \<open>assertUserErrors\<close> (lines 99-102): \<open>Some\<close> what it throws, \<open>None\<close> when it returns;
  \<open>errs_of\<close> is its \<^verbatim>\<open>payload?.userErrors || []\<close>.
\<close>

definition errs_of :: "payload option \<Rightarrow> user_error list" where
  "errs_of pl =
     (case pl of
        None \<Rightarrow> []
      | Some p \<Rightarrow> (case userErrors p of None \<Rightarrow> [] | Some es \<Rightarrow> es))"

definition assertUserErrors :: "string \<Rightarrow> payload option \<Rightarrow> thrown option" where
  "assertUserErrors stepName pl =
     (let errs = errs_of pl
      in if errs \<noteq> [] then Some (UserErrors stepName errs) else None)"

subsection \<open>Request and response of the endpoint\<close>

text \<open>\<^verbatim>\<open>targetShippingPrice\<close> is a JSON number or a string.\<close>

datatype price_in = PriceNum jsnum | PriceStr string

record request =
  shopDomain :: "string option"
  orderGid :: "string option"
  orderId :: "string option"
  targetShippingTitle :: "string option"
  targetShippingPrice :: "price_in option"
  dryRun :: bool
  xFlowSecret :: "string option"

text \<open>
  The \<^verbatim>\<open>details\<close> argument of \<open>errRes\<close>: a string, a number, or, for a caught error \<open>x\<close>,
  the string \<^verbatim>\<open>x.stack || String(x)\<close>, kept here as the error itself.
\<close>

datatype details = DStr string | DNum jsnum | DThrown thrown

fun truthy_details :: "details option \<Rightarrow> bool" where
  "truthy_details None = False"
| "truthy_details (Some (DStr s)) = (s \<noteq> [])"
| "truthy_details (Some (DNum n)) = (n \<noteq> Finite 0 \<and> n \<noteq> NaN)"
| "truthy_details (Some (DThrown x)) = True"

record line_view =
  lv_id :: string
  lv_title :: string
  lv_price :: jsnum

record target_view =
  tv_title :: string
  tv_price :: jsnum

text \<open>
  The success body \<^verbatim>\<open>{ok: true, dryRun?, shopDomain, orderName, mode, from, to}\<close>;
  \<open>res_dryRun\<close> tells whether the key \<^verbatim>\<open>dryRun: true\<close> is there.
\<close>

record ok_body =
  res_dryRun :: bool
  res_shopDomain :: string
  res_orderName :: string
  res_mode :: string
  res_from :: "line_view option"
  res_to :: target_view

datatype body = ErrorBody string "details option" | OkBody ok_body

record response =
  res_status :: nat
  res_body :: body

text \<open>\<open>errRes\<close> (lines 52-56).\<close>

definition errRes :: "env \<Rightarrow> nat \<Rightarrow> string \<Rightarrow> details option \<Rightarrow> response" where
  "errRes e cd msg dt =
     \<lparr>res_status = cd,
      res_body = ErrorBody msg (if debug e \<and> truthy_details dt then dt else None)\<rparr>"

text \<open>\<^verbatim>\<open>res.json(b)\<close> without a status: 200.\<close>

definition okRes :: "ok_body \<Rightarrow> response" where
  "okRes b = \<lparr>res_status = 200, res_body = OkBody b\<rparr>"

subsection \<open>The handler (lines 163-317)\<close>

text \<open>
  The handler is embedded block by block, in the order of the source; each block ends by
  calling the next one. Every function from \<open>fetch_step\<close> on returns what the \<^verbatim>\<open>try\<close>
  body does (\<open>Inl\<close>: it throws, \<open>Inr\<close>: it returns this response) and the requests issued.
\<close>

text \<open>\<^verbatim>\<open>order.shippingLines?.nodes?.[0] || null\<close> (line 214).\<close>

definition current_line :: "shop_order \<Rightarrow> shipping_line option" where
  "current_line ord =
     (case shippingLines ord of
        None \<Rightarrow> None
      | Some c \<Rightarrow> (case nodes c of
                    None \<Rightarrow> None
                  | Some ns \<Rightarrow> (case ns of [] \<Rightarrow> None | n # _ \<Rightarrow> n)))"

text \<open>\<^verbatim>\<open>current.originalPriceSet?.shopMoney?.amount\<close> (line 221).\<close>

definition amountStr :: "shipping_line \<Rightarrow> string option" where
  "amountStr current =
     (case originalPriceSet current of
        None \<Rightarrow> None
      | Some ps \<Rightarrow> (case shopMoney ps of None \<Rightarrow> None | Some m \<Rightarrow> amount m))"

text \<open>
  \<^verbatim>\<open>parseFloat\<close> of a value: of an absent one it is NaN, of a number the number itself
  (the decimal string of a number reads back as that number), of a string what the
  builtin \<open>pf\<close> returns.
\<close>

definition parseFloat_opt :: "(string \<Rightarrow> jsnum) \<Rightarrow> string option \<Rightarrow> jsnum" where
  "parseFloat_opt pf a = (case a of None \<Rightarrow> NaN | Some s \<Rightarrow> pf s)"

fun parseFloat_price :: "(string \<Rightarrow> jsnum) \<Rightarrow> price_in \<Rightarrow> jsnum" where
  "parseFloat_price pf (PriceNum n) = n"
| "parseFloat_price pf (PriceStr s) = pf s"

fun price_details :: "price_in \<Rightarrow> details" where
  "price_details (PriceNum n) = DNum n"
| "price_details (PriceStr s) = DStr s"

text \<open>\<^verbatim>\<open>d2.orderEditBegin?.calculatedOrder?.id\<close> (line 256).\<close>

definition calculatedOrderId :: "payload option \<Rightarrow> string option" where
  "calculatedOrderId pl =
     (case pl of
        None \<Rightarrow> None
      | Some p \<Rightarrow> (case calculatedOrder p of None \<Rightarrow> None | Some c \<Rightarrow> co_id c))"

text \<open>The object literal of lines 234-242 and 305-312; \<open>dry\<close> is the key \<^verbatim>\<open>dryRun: true\<close>.\<close>

definition success_body ::
  "request \<Rightarrow> shop_order \<Rightarrow> shipping_line option \<Rightarrow> jsnum \<Rightarrow> bool \<Rightarrow> ok_body" where
  "success_body rq ord current price dry =
     \<lparr>res_dryRun = dry,
      res_shopDomain = String_or_empty (shopDomain rq),
      res_orderName = order_name ord,
      res_mode = (case current of None \<Rightarrow> ''add'' | Some c \<Rightarrow> ''replace''),
      res_from = (case current of
                    None \<Rightarrow> None
                  | Some c \<Rightarrow> Some \<lparr>lv_id = sl_id c, lv_title = sl_title c, lv_price = price\<rparr>),
      res_to = \<lparr>tv_title = String_or_empty (targetShippingTitle rq), tv_price = price\<rparr>\<rparr>"

text \<open>5) Commit, and the final response (lines 293-312).\<close>

definition commit_step ::
  "env \<Rightarrow> net \<Rightarrow> region \<Rightarrow> request \<Rightarrow> shop_order \<Rightarrow> shipping_line option \<Rightarrow> jsnum \<Rightarrow>
     string \<Rightarrow> fetch_req list \<Rightarrow> (thrown + response) \<times> fetch_req list" where
  "commit_step e nt rg rq ord current price cid issued =
     (case shopifyGraphQL e nt rg (Commit cid) issued of
        (Inl x, issued') \<Rightarrow> (Inl x, issued')
      | (Inr None, issued') \<Rightarrow> (Inl (TypeError ''orderEditCommit''), issued')
      | (Inr (Some d5), issued') \<Rightarrow>
          (case assertUserErrors ''orderEditCommit'' (orderEditCommit d5) of
             Some x \<Rightarrow> (Inl x, issued')
           | None \<Rightarrow> (Inr (okRes (success_body rq ord current price False)), issued')))"

text \<open>4) Remove the old shipping line only if it existed (lines 275-291).\<close>

definition remove_step ::
  "env \<Rightarrow> net \<Rightarrow> region \<Rightarrow> request \<Rightarrow> shop_order \<Rightarrow> shipping_line option \<Rightarrow> jsnum \<Rightarrow>
     string \<Rightarrow> fetch_req list \<Rightarrow> (thrown + response) \<times> fetch_req list" where
  "remove_step e nt rg rq ord current price cid issued =
     (case current of
        None \<Rightarrow> commit_step e nt rg rq ord current price cid issued
      | Some c \<Rightarrow>
          (case shopifyGraphQL e nt rg (Remove cid (sl_id c)) issued of
             (Inl x, issued') \<Rightarrow> (Inl x, issued')
           | (Inr None, issued') \<Rightarrow> (Inl (TypeError ''orderEditRemoveShippingLine''), issued')
           | (Inr (Some d4), issued') \<Rightarrow>
               (case assertUserErrors ''orderEditRemoveShippingLine''
                       (orderEditRemoveShippingLine d4) of
                  Some x \<Rightarrow> (Inl x, issued')
                | None \<Rightarrow> commit_step e nt rg rq ord current price cid issued')))"

text \<open>3) Add the new shipping line (lines 259-273).\<close>

definition add_step ::
  "env \<Rightarrow> net \<Rightarrow> region \<Rightarrow> request \<Rightarrow> shop_order \<Rightarrow> shipping_line option \<Rightarrow> jsnum \<Rightarrow>
     string \<Rightarrow> fetch_req list \<Rightarrow> (thrown + response) \<times> fetch_req list" where
  "add_step e nt rg rq ord current price cid issued =
     (case shopifyGraphQL e nt rg
             (Add cid (String_or_empty (targetShippingTitle rq)) price) issued of
        (Inl x, issued') \<Rightarrow> (Inl x, issued')
      | (Inr None, issued') \<Rightarrow> (Inl (TypeError ''orderEditAddShippingLine''), issued')
      | (Inr (Some d3), issued') \<Rightarrow>
          (case assertUserErrors ''orderEditAddShippingLine'' (orderEditAddShippingLine d3) of
             Some x \<Rightarrow> (Inl x, issued')
           | None \<Rightarrow> remove_step e nt rg rq ord current price cid issued'))"

text \<open>2) Begin the order edit (lines 245-257).\<close>

definition begin_step ::
  "env \<Rightarrow> net \<Rightarrow> region \<Rightarrow> string \<Rightarrow> request \<Rightarrow> shop_order \<Rightarrow> shipping_line option \<Rightarrow>
     jsnum \<Rightarrow> fetch_req list \<Rightarrow> (thrown + response) \<times> fetch_req list" where
  "begin_step e nt rg gid rq ord current price issued =
     (case shopifyGraphQL e nt rg (Begin gid) issued of
        (Inl x, issued') \<Rightarrow> (Inl x, issued')
      | (Inr None, issued') \<Rightarrow> (Inl (TypeError ''orderEditBegin''), issued')
      | (Inr (Some d2), issued') \<Rightarrow>
          (case assertUserErrors ''orderEditBegin'' (orderEditBegin d2) of
             Some x \<Rightarrow> (Inl x, issued')
           | None \<Rightarrow>
               (case calculatedOrderId (orderEditBegin d2) of
                  None \<Rightarrow> (Inr (errRes e 500 ''Missing calculatedOrderId'' None), issued')
                | Some cid \<Rightarrow>
                    if cid = []
                    then (Inr (errRes e 500 ''Missing calculatedOrderId'' None), issued')
                    else add_step e nt rg rq ord current price cid issued')))"

text \<open>The dry-run return (lines 233-243).\<close>

definition dry_run_step ::
  "env \<Rightarrow> net \<Rightarrow> region \<Rightarrow> string \<Rightarrow> request \<Rightarrow> shop_order \<Rightarrow> shipping_line option \<Rightarrow>
     jsnum \<Rightarrow> fetch_req list \<Rightarrow> (thrown + response) \<times> fetch_req list" where
  "dry_run_step e nt rg gid rq ord current price issued =
     (if dryRun rq then (Inr (okRes (success_body rq ord current price True)), issued)
      else begin_step e nt rg gid rq ord current price issued)"

text \<open>The price (lines 216-231).\<close>

definition price_step ::
  "env \<Rightarrow> (string \<Rightarrow> jsnum) \<Rightarrow> net \<Rightarrow> region \<Rightarrow> string \<Rightarrow> request \<Rightarrow> shop_order \<Rightarrow>
     shipping_line option \<Rightarrow> fetch_req list \<Rightarrow> (thrown + response) \<times> fetch_req list" where
  "price_step e pf nt rg gid rq ord current issued =
     (case current of
        Some c \<Rightarrow>
          (let price = parseFloat_opt pf (amountStr c)
           in if \<not> isFinite price
              then (Inr (errRes e 500 ''Invalid existing shipping price''
                           (map_option DStr (amountStr c))), issued)
              else dry_run_step e nt rg gid rq ord current price issued)
      | None \<Rightarrow>
          (let p = (case targetShippingPrice rq of
                      None \<Rightarrow> Finite 0
                    | Some v \<Rightarrow> parseFloat_price pf v)
           in if \<not> isFinite p
              then (Inr (errRes e 400 ''Invalid targetShippingPrice''
                           (map_option price_details (targetShippingPrice rq))), issued)
              else dry_run_step e nt rg gid rq ord current p issued))"

text \<open>1) Fetch the order and its shipping lines (lines 193-214).\<close>

definition fetch_step ::
  "env \<Rightarrow> (string \<Rightarrow> jsnum) \<Rightarrow> net \<Rightarrow> region \<Rightarrow> string \<Rightarrow> request \<Rightarrow>
     (thrown + response) \<times> fetch_req list" where
  "fetch_step e pf nt rg gid rq =
     (case shopifyGraphQL e nt rg (GetOrder gid) [] of
        (Inl x, issued) \<Rightarrow> (Inl x, issued)
      | (Inr None, issued) \<Rightarrow> (Inl (TypeError ''order''), issued)
      | (Inr (Some d1), issued) \<Rightarrow>
          (case data_order d1 of
             None \<Rightarrow> (Inr (errRes e 404 ''Order not found'' None), issued)
           | Some ord \<Rightarrow> price_step e pf nt rg gid rq ord (current_line ord) issued))"

text \<open>
  The checks of lines 174-191: the response that rejects the request, or the region and
  the canonical order identifier.
\<close>

definition validate :: "env \<Rightarrow> request \<Rightarrow> response + region \<times> string" where
  "validate e rq =
     (if \<not> truthy (shopDomain rq) \<or> \<not> isValidShop (shopDomain rq)
      then Inl (errRes e 400 ''Missing/invalid shopDomain'' (map_option DStr (shopDomain rq)))
      else (case byShop e (String_or_empty (shopDomain rq)) of
        None \<Rightarrow>
          Inl (errRes e 400 (''Shop not recognized: '' @ template (shopDomain rq)) None)
      | Some rg \<Rightarrow>
          if truthy (flowSecret rg) \<and> \<not> tscEq (xFlowSecret rq) (flowSecret rg)
          then Inl (errRes e 401 ''Bad X-Flow-Secret'' None)
          else
            let gid = or_else (toOrderGid (orderGid rq)) (toOrderGid (orderId rq))
            in if \<not> truthy gid
               then Inl (errRes e 400 ''Missing/invalid orderGid/orderId'' None)
               else if \<not> truthy (targetShippingTitle rq)
                       \<or> trim_is_empty (String_or_empty (targetShippingTitle rq))
               then Inl (errRes e 400 ''Missing targetShippingTitle'' None)
               else Inr (rg, String_or_empty gid)))"

text \<open>
  The handler: the \<^verbatim>\<open>try\<close> body, and the \<^verbatim>\<open>catch\<close> of lines 313-316, which answers
  500 \<^verbatim>\<open>Server error\<close> with the caught error as details.
\<close>

definition handler ::
  "env \<Rightarrow> (string \<Rightarrow> jsnum) \<Rightarrow> net \<Rightarrow> request \<Rightarrow> response \<times> fetch_req list" where
  "handler e pf nt rq =
     (case validate e rq of
        Inl res \<Rightarrow> (res, [])
      | Inr (rg, gid) \<Rightarrow>
          (case fetch_step e pf nt rg gid rq of
             (Inl x, issued) \<Rightarrow> (errRes e 500 ''Server error'' (Some (DThrown x)), issued)
           | (Inr res, issued) \<Rightarrow> (res, issued)))"

subsection \<open>Vocabulary of the properties\<close>

text \<open>
  The language of \<^verbatim>\<open>^[a-z0-9-]+\.myshopify\.com$\<close>, read off the expression: a non-empty
  label of class characters followed by the literal suffix.
\<close>

definition matches_shop_pattern :: "string \<Rightarrow> bool" where
  "matches_shop_pattern s =
     (\<exists>label. label \<noteq> [] \<and> list_all label_char label \<and> s = label @ ''.myshopify.com'')"

text \<open>The mutating calls, the step name each is asserted under, and the payload asserted.\<close>

fun mutating :: "gql_op \<Rightarrow> bool" where
  "mutating (GetOrder g) = False"
| "mutating (Begin g) = True"
| "mutating (Add c t p) = True"
| "mutating (Remove c l) = True"
| "mutating (Commit c) = True"

fun step_name :: "gql_op \<Rightarrow> string" where
  "step_name (GetOrder g) = ''order''"
| "step_name (Begin g) = ''orderEditBegin''"
| "step_name (Add c t p) = ''orderEditAddShippingLine''"
| "step_name (Remove c l) = ''orderEditRemoveShippingLine''"
| "step_name (Commit c) = ''orderEditCommit''"

fun step_payload :: "gql_op \<Rightarrow> gql_data \<Rightarrow> payload option" where
  "step_payload (GetOrder g) d = None"
| "step_payload (Begin g) d = orderEditBegin d"
| "step_payload (Add c t p) d = orderEditAddShippingLine d"
| "step_payload (Remove c l) d = orderEditRemoveShippingLine d"
| "step_payload (Commit c) d = orderEditCommit d"

text \<open>
  Whether a response shows a step name: the name occurs in its \<^verbatim>\<open>error\<close> string or in its
  \<^verbatim>\<open>details\<close>. For a caught error the details are its message (and stack), and the message
  shows the strings its template splices in.
\<close>

fun mentions :: "thrown \<Rightarrow> string \<Rightarrow> bool" where
  "mentions (TokenNotConfigured c) st = sublist st c"
| "mentions (FetchRejected m) st = sublist st m"
| "mentions (GraphQLHttp n t) st = sublist st t"
| "mentions (GraphQLNonJson t) st = sublist st t"
| "mentions (GraphQLErrors es) st = list_ex (\<lambda>g. sublist st (ge_message g)) es"
| "mentions (UserErrors s es) st =
     (sublist st s \<or> list_ex (\<lambda>u. sublist st (ue_message u)) es)"
| "mentions (TypeError p) st = sublist st p"

fun details_show :: "details option \<Rightarrow> string \<Rightarrow> bool" where
  "details_show None st = False"
| "details_show (Some (DStr s)) st = sublist st s"
| "details_show (Some (DNum n)) st = False"
| "details_show (Some (DThrown x)) st = mentions x st"

fun body_shows :: "body \<Rightarrow> string \<Rightarrow> bool" where
  "body_shows (ErrorBody msg dt) st = (sublist st msg \<or> details_show dt st)"
| "body_shows (OkBody b) st = False"

definition names_step :: "response \<Rightarrow> string \<Rightarrow> bool" where
  "names_step res st = body_shows (res_body res) st"

text \<open>
  The price as the specification determines it (section 4.4, step 2): with a current
  line, the parse of its amount; without one, the parse of the caller's
  \<^verbatim>\<open>targetShippingPrice\<close>, or 0 when that is absent.
\<close>

definition determined_price ::
  "(string \<Rightarrow> jsnum) \<Rightarrow> request \<Rightarrow> shipping_line option \<Rightarrow> jsnum" where
  "determined_price pf rq current =
     (case current of
        Some c \<Rightarrow> parseFloat_opt pf (amountStr c)
      | None \<Rightarrow> (case targetShippingPrice rq of
                   None \<Rightarrow> Finite 0
                 | Some v \<Rightarrow> parseFloat_price pf v))"

text \<open>
  A run uses the price \<open>p\<close>: every add call it issued carries \<open>p\<close>, and a success body
  it answered has \<open>p\<close> in \<^verbatim>\<open>to\<close> and, if there is one, in \<^verbatim>\<open>from\<close>.
\<close>

fun carries_price :: "jsnum \<Rightarrow> gql_op \<Rightarrow> bool" where
  "carries_price p (Add c t q) = (q = p)"
| "carries_price p (GetOrder g) = True"
| "carries_price p (Begin g) = True"
| "carries_price p (Remove c l) = True"
| "carries_price p (Commit c) = True"

fun answers_price :: "jsnum \<Rightarrow> body \<Rightarrow> bool" where
  "answers_price p (ErrorBody msg dt) = True"
| "answers_price p (OkBody b) =
     (tv_price (res_to b) = p
      \<and> (case res_from b of None \<Rightarrow> True | Some l \<Rightarrow> lv_price l = p))"

definition price_used :: "jsnum \<Rightarrow> response \<Rightarrow> fetch_req list \<Rightarrow> bool" where
  "price_used p res issued =
     (list_all (\<lambda>r. carries_price p (req_op r)) issued \<and> answers_price p (res_body res))"

text \<open>
  A finite price \<open>p\<close> is accepted: the run goes on with it. Every add call carries \<open>p\<close>
  and a success body answers it. A dry run stops after the requests \<open>issued1\<close> of the fetch
  and answers 200 with \<^verbatim>\<open>dryRun: true\<close> and \<open>p\<close> in \<^verbatim>\<open>to\<close>. A live run issues the begin call
  next, and, when that call returns a handle and no user errors, the add call for the
  target title at the price \<open>p\<close> right after it.
\<close>

definition price_accepted ::
  "env \<Rightarrow> net \<Rightarrow> region \<Rightarrow> string \<Rightarrow> request \<Rightarrow> fetch_req list \<Rightarrow> jsnum \<Rightarrow>
     response \<Rightarrow> fetch_req list \<Rightarrow> bool" where
  "price_accepted e nt rg gid rq issued1 p res issued =
     (price_used p res issued
      \<and> (if dryRun rq
          then issued = issued1
               \<and> res_status res = 200
               \<and> (case res_body res of
                     ErrorBody msg dt \<Rightarrow> False
                   | OkBody b \<Rightarrow> res_dryRun b \<and> tv_price (res_to b) = p)
          else prefix (issued1 @ [fetch_request e rg (Begin gid)]) issued
               \<and> (case gateway_result (nt issued1 (fetch_request e rg (Begin gid))) of
                     Inl x \<Rightarrow> True
                   | Inr None \<Rightarrow> True
                   | Inr (Some d2) \<Rightarrow>
                       (case calculatedOrderId (orderEditBegin d2) of
                          None \<Rightarrow> True
                        | Some cid \<Rightarrow>
                            if errs_of (orderEditBegin d2) = [] \<and> cid \<noteq> []
                            then prefix
                                   (issued1 @
                                    [fetch_request e rg (Begin gid),
                                     fetch_request e rg
                                       (Add cid (String_or_empty (targetShippingTitle rq)) p)])
                                   issued
                            else True))))"

text \<open>
  A price is rejected: nothing is issued after the requests \<open>issued1\<close> of the fetch, and the
  answer is the error \<open>msg\<close> with the status \<open>cd\<close>.
\<close>

definition price_rejected ::
  "nat \<Rightarrow> string \<Rightarrow> fetch_req list \<Rightarrow> response \<Rightarrow> fetch_req list \<Rightarrow> bool" where
  "price_rejected cd msg issued1 res issued =
     (issued = issued1
      \<and> res_status res = cd
      \<and> (case res_body res of ErrorBody m dt \<Rightarrow> m = msg | OkBody b \<Rightarrow> False))"

text \<open>
  The handle a response to the begin call delivers,
  \<^verbatim>\<open>d2?.orderEditBegin?.calculatedOrder?.id\<close>: none when the response has no data.
\<close>

definition begin_handle :: "gql_data option \<Rightarrow> string option" where
  "begin_handle dopt =
     (case dopt of None \<Rightarrow> None | Some d2 \<Rightarrow> calculatedOrderId (orderEditBegin d2))"

subsection \<open>A concrete shop, for the examples\<close>

text \<open>
  One region without a shared secret and one with; the order of the specification's
  round trip (a line \<^verbatim>\<open>Standard\<close> at 5.00, to become \<^verbatim>\<open>DHL_PAKET::Standard\<close>).
\<close>

definition ex_env :: env where
  "ex_env =
     \<lparr>SHOP_DOMAIN_UK = Some ''demo-uk.myshopify.com'',
      SHOP_DOMAIN_EU = Some ''demo-eu.myshopify.com'',
      SHOP_DOMAIN_US = None,
      SHOPIFY_ADMIN_TOKEN_UK = Some ''token-uk'',
      SHOPIFY_ADMIN_TOKEN_EU = Some ''token-eu'',
      SHOPIFY_ADMIN_TOKEN_US = None,
      SHOPIFY_API_VERSION = None,
      FLOW_SECRET_UK = None,
      FLOW_SECRET_EU = Some ''s3cret'',
      FLOW_SECRET_US = None,
      DEBUG_ERRORS = None\<rparr>"

definition ex_region :: region where
  "ex_region =
     \<lparr>code = ''UK'', shop = Some ''demo-uk.myshopify.com'', adminToken = Some ''token-uk'',
      flowSecret = None\<rparr>"

definition ex_region_eu :: region where
  "ex_region_eu =
     \<lparr>code = ''EU'', shop = Some ''demo-eu.myshopify.com'', adminToken = Some ''token-eu'',
      flowSecret = Some ''s3cret''\<rparr>"

definition ex_pf :: "string \<Rightarrow> jsnum" where
  "ex_pf s = (if s = ''5.00'' then Finite 5 else if s = ''1e999'' then PosInfinity else NaN)"

definition ex_request :: request where
  "ex_request =
     \<lparr>shopDomain = Some ''demo-uk.myshopify.com'',
      orderGid = Some ''gid://shopify/Order/1'',
      orderId = None,
      targetShippingTitle = Some ''DHL_PAKET::Standard'',
      targetShippingPrice = None,
      dryRun = False,
      xFlowSecret = None\<rparr>"

definition ex_line :: shipping_line where
  "ex_line =
     \<lparr>sl_id = ''L1'', sl_title = ''Standard'',
      originalPriceSet = Some \<lparr>shopMoney = Some \<lparr>amount = Some ''5.00''\<rparr>\<rparr>\<rparr>"

definition ex_order :: shop_order where
  "ex_order = \<lparr>order_name = ''#1001'', shippingLines = Some \<lparr>nodes = Some [Some ex_line]\<rparr>\<rparr>"

definition no_data :: gql_data where
  "no_data =
     \<lparr>data_order = None, orderEditBegin = None, orderEditAddShippingLine = None,
      orderEditRemoveShippingLine = None, orderEditCommit = None\<rparr>"

definition answer :: "gql_data \<Rightarrow> fetch_result" where
  "answer d =
     Responded \<lparr>resp_ok = True, resp_status = 200, resp_text = [],
                resp_json = Some \<lparr>errors = None, data = Some d\<rparr>\<rparr>"

definition good_payload :: payload where
  "good_payload = \<lparr>calculatedOrder = Some \<lparr>co_id = Some ''C1''\<rparr>, userErrors = Some []\<rparr>"

definition bad_payload :: payload where
  "bad_payload =
     \<lparr>calculatedOrder = None,
      userErrors = Some [\<lparr>ue_field = None, ue_message = ''The order cannot be edited''\<rparr>]\<rparr>"

text \<open>A remote where every call succeeds, on the order \<open>ord\<close>.\<close>

definition ex_net :: "shop_order \<Rightarrow> net" where
  "ex_net ord issued rq =
     (case req_op rq of
        GetOrder g \<Rightarrow> answer (no_data\<lparr>data_order := Some ord\<rparr>)
      | Begin g \<Rightarrow> answer (no_data\<lparr>orderEditBegin := Some good_payload\<rparr>)
      | Add c t p \<Rightarrow> answer (no_data\<lparr>orderEditAddShippingLine := Some good_payload\<rparr>)
      | Remove c l \<Rightarrow> answer (no_data\<lparr>orderEditRemoveShippingLine := Some good_payload\<rparr>)
      | Commit c \<Rightarrow> answer (no_data\<lparr>orderEditCommit := Some good_payload\<rparr>))"

text \<open>A remote whose \<^verbatim>\<open>orderEditBegin\<close> answers with user errors and no calculated order.\<close>

definition ex_net_begin_refused :: net where
  "ex_net_begin_refused issued rq =
     (case req_op rq of
        Begin g \<Rightarrow> answer (no_data\<lparr>orderEditBegin := Some bad_payload\<rparr>)
      | _ \<Rightarrow> ex_net ex_order issued rq)"

text \<open>A remote whose \<^verbatim>\<open>orderEditBegin\<close> answers with neither user errors nor a calculated order.\<close>

definition ex_net_begin_empty :: net where
  "ex_net_begin_empty issued rq =
     (case req_op rq of
        Begin g \<Rightarrow>
          answer (no_data\<lparr>orderEditBegin := Some \<lparr>calculatedOrder = None, userErrors = Some []\<rparr>\<rparr>)
      | _ \<Rightarrow> ex_net ex_order issued rq)"

text \<open>A remote whose \<^verbatim>\<open>orderEditBegin\<close> answers with a body that has no \<^verbatim>\<open>data\<close>.\<close>

definition ex_net_begin_no_data :: net where
  "ex_net_begin_no_data issued rq =
     (case req_op rq of
        Begin g \<Rightarrow>
          Responded \<lparr>resp_ok = True, resp_status = 200, resp_text = [],
                     resp_json = Some \<lparr>errors = None, data = None\<rparr>\<rparr>
      | _ \<Rightarrow> ex_net ex_order issued rq)"

section \<open>Properties\<close>

subsection \<open>Auxiliary facts\<close>

lemma errRes_status [simp]: "res_status (errRes e c m d) = c"
  by (simp add: errRes_def)

lemma okRes_status [simp]: "res_status (okRes b) = 200"
  by (simp add: okRes_def)

lemma errRes_None [simp]: "errRes e c m None = \<lparr>res_status = c, res_body = ErrorBody m None\<rparr>"
  by (simp add: errRes_def)

lemma not_label_dot: "\<not> label_char CHR ''.''"
  by (simp add: label_char_def)

text \<open>The test of \<open>isValidShop\<close> decides the language of the regular expression.\<close>

lemma isValidShop_iff: "isValidShop s \<longleftrightarrow> matches_shop_pattern (String_or_empty s)"
proof
  assume v: "isValidShop s"
  let ?str = "String_or_empty s"
  have "?str = takeWhile label_char ?str @ dropWhile label_char ?str"
    by simp
  moreover have "list_all label_char (takeWhile label_char ?str)"
    by (simp add: list_all_iff) (meson set_takeWhileD)
  ultimately show "matches_shop_pattern ?str"
    using v unfolding isValidShop_def matches_shop_pattern_def Let_def by metis
next
  assume "matches_shop_pattern (String_or_empty s)"
  then obtain label where l: "label \<noteq> []" "list_all label_char label"
    and s: "String_or_empty s = label @ ''.myshopify.com''"
    unfolding matches_shop_pattern_def by blast
  from l(2) have a: "\<forall>c\<in>set label. label_char c"
    by (simp add: list_all_iff)
  have "takeWhile label_char (label @ ''.myshopify.com'') = label"
    using a by (simp add: not_label_dot)
  moreover have "dropWhile label_char (label @ ''.myshopify.com'') = ''.myshopify.com''"
    using a by (simp add: not_label_dot)
  ultimately show "isValidShop s"
    using l(1) s by (simp add: isValidShop_def)
qed

subsection \<open>Request validation\<close>

text \<open>
  Claim C7. A request whose \<^verbatim>\<open>shopDomain\<close> (absent counting as the empty string) is not in
  the language of \<^verbatim>\<open>^[a-z0-9-]+\.myshopify\.com$\<close> is answered 400
  \<^verbatim>\<open>Missing/invalid shopDomain\<close>, and no request is issued to the remote platform, whatever
  the configuration, the remote and the rest of the request are.
\<close>

theorem invalid_shop_domain_rejected:
  assumes "\<not> matches_shop_pattern (String_or_empty (shopDomain rq))"
  shows "\<exists>dt. handler e pf nt rq =
           (\<lparr>res_status = 400, res_body = ErrorBody ''Missing/invalid shopDomain'' dt\<rparr>, [])"
  using assms by (simp add: handler_def validate_def isValidShop_iff errRes_def)

theorem invalid_shop_domain_rejected_witness:
  "\<not> matches_shop_pattern
       (String_or_empty (shopDomain (ex_request\<lparr>shopDomain := Some ''Demo-UK.myshopify.com''\<rparr>)))
   \<and> (\<exists>dt. handler ex_env ex_pf (ex_net ex_order)
              (ex_request\<lparr>shopDomain := Some ''Demo-UK.myshopify.com''\<rparr>) =
           (\<lparr>res_status = 400, res_body = ErrorBody ''Missing/invalid shopDomain'' dt\<rparr>, []))"
proof -
  have n: "\<not> matches_shop_pattern
             (String_or_empty (shopDomain (ex_request\<lparr>shopDomain := Some ''Demo-UK.myshopify.com''\<rparr>)))"
    unfolding isValidShop_iff [symmetric]
    by (simp add: isValidShop_def label_char_def)
  from invalid_shop_domain_rejected [OF n] n show ?thesis by blast
qed

text \<open>The secret comparison decides equality of the two byte strings.\<close>

lemma tscEq_iff: "tscEq a b \<longleftrightarrow> String_or_empty a = String_or_empty b"
  by (auto simp: tscEq_def timingSafeEqual_def Let_def)

lemma toOrderGid_truthy: "toOrderGid c = Some g \<Longrightarrow> g \<noteq> []"
  by (auto simp: toOrderGid_def Let_def gid_prefix_def split: if_splits)

lemma not_digit_g: "\<not> digit_char CHR ''g''"
  by (simp add: digit_char_def)

lemma prefix_not_digits: "prefix gid_prefix s \<Longrightarrow> \<not> all_digits s"
  by (auto simp: prefix_def gid_prefix_def all_digits_def not_digit_g)

text \<open>A gateway call issues one request when the region has a token, and none otherwise.\<close>

lemma sgq_token:
  "truthy (adminToken rg) \<Longrightarrow>
   shopifyGraphQL e nt rg opn issued =
     (gateway_result (nt issued (fetch_request e rg opn)), issued @ [fetch_request e rg opn])"
  by (simp add: shopifyGraphQL_def Let_def)

lemma sgq_notoken:
  "\<not> truthy (adminToken rg) \<Longrightarrow>
   shopifyGraphQL e nt rg opn issued =
     (Inl (TokenNotConfigured (if code rg = [] then ''??'' else code rg)), issued)"
  by (simp add: shopifyGraphQL_def)

text \<open>Each block only appends to the list of issued requests.\<close>

lemma commit_step_extends:
  "truthy (adminToken rg) \<Longrightarrow>
   \<exists>new. snd (commit_step e nt rg rq ord cur p cid issued) = issued @ new"
  by (auto simp: commit_step_def sgq_token split: sum.splits option.splits)

lemma remove_step_extends:
  "truthy (adminToken rg) \<Longrightarrow>
   \<exists>new. snd (remove_step e nt rg rq ord cur p cid issued) = issued @ new"
  using commit_step_extends [of rg e nt rq ord cur p cid]
  apply (auto simp: remove_step_def sgq_token split: sum.splits option.splits)
  by (metis append.assoc)

lemma add_step_extends:
  "truthy (adminToken rg) \<Longrightarrow>
   \<exists>new. snd (add_step e nt rg rq ord cur p cid issued) = issued @ new"
  using remove_step_extends [of rg e nt rq ord cur p cid]
  apply (auto simp: add_step_def sgq_token split: sum.splits option.splits)
  by (metis append.assoc)

lemma begin_step_extends:
  "truthy (adminToken rg) \<Longrightarrow>
   \<exists>new. snd (begin_step e nt rg gid rq ord cur p issued) = issued @ new"
  using add_step_extends [of rg e nt rq ord cur p]
  apply (auto simp: begin_step_def sgq_token split: sum.splits option.splits)
  by (metis append.assoc)

lemma price_step_extends:
  "truthy (adminToken rg) \<Longrightarrow>
   \<exists>new. snd (price_step e pf nt rg gid rq ord cur issued) = issued @ new"
  using begin_step_extends [of rg e nt gid rq ord cur]
  by (auto simp: price_step_def dry_run_step_def Let_def split: option.splits)

lemma fetch_step_first:
  "truthy (adminToken rg) \<Longrightarrow>
   \<exists>rs. snd (fetch_step e pf nt rg gid rq) = fetch_request e rg (GetOrder gid) # rs"
  using price_step_extends [of rg e pf nt gid rq _ _ "[fetch_request e rg (GetOrder gid)]"]
  by (auto simp: fetch_step_def sgq_token split: sum.splits option.splits)

lemma handler_valid:
  "validate e rq = Inr (rg, gid) \<Longrightarrow>
   snd (handler e pf nt rq) = snd (fetch_step e pf nt rg gid rq)"
  by (auto simp: handler_def split: prod.splits sum.splits)

text \<open>
  Claim C6. \<open>toOrderGid\<close> returns a candidate that starts with the canonical prefix
  unchanged, wraps a candidate of decimal digits only into \<^verbatim>\<open>gid://shopify/Order/<digits>\<close>,
  and yields nothing for any other candidate. Of a request that has passed the domain,
  region and secret checks, the identifier handed on is the one of \<^verbatim>\<open>orderGid\<close> if that
  candidate yields one and else the one of \<^verbatim>\<open>orderId\<close>; if neither yields one, the answer
  is 400 \<^verbatim>\<open>Missing/invalid orderGid/orderId\<close> and no request is issued.
\<close>

theorem order_reference_canonicalization:
  assumes "isValidShop (shopDomain rq)"
    and "byShop e (String_or_empty (shopDomain rq)) = Some rg"
    and "truthy (flowSecret rg) \<longrightarrow> tscEq (xFlowSecret rq) (flowSecret rg)"
  shows "(prefix gid_prefix s \<longrightarrow> toOrderGid (Some s) = Some s)
       \<and> (all_digits s \<longrightarrow> toOrderGid (Some s) = Some (gid_prefix @ s))
       \<and> (\<not> prefix gid_prefix (String_or_empty c) \<and> \<not> all_digits (String_or_empty c)
            \<longrightarrow> toOrderGid c = None)
       \<and> (\<forall>g. toOrderGid (orderGid rq) = Some g
              \<or> (toOrderGid (orderGid rq) = None \<and> toOrderGid (orderId rq) = Some g) \<longrightarrow>
            validate e rq =
              (if \<not> truthy (targetShippingTitle rq)
                  \<or> trim_is_empty (String_or_empty (targetShippingTitle rq))
               then Inl (errRes e 400 ''Missing targetShippingTitle'' None)
               else Inr (rg, g)))
       \<and> (toOrderGid (orderGid rq) = None \<and> toOrderGid (orderId rq) = None \<longrightarrow>
            handler e pf nt rq =
              (\<lparr>res_status = 400,
                res_body = ErrorBody ''Missing/invalid orderGid/orderId'' None\<rparr>, []))"
proof (intro conjI impI allI)
  assume "prefix gid_prefix s"
  then show "toOrderGid (Some s) = Some s"
    by (auto simp: toOrderGid_def gid_prefix_def)
next
  assume "all_digits s"
  then show "toOrderGid (Some s) = Some (gid_prefix @ s)"
    using prefix_not_digits [of s] by (auto simp: toOrderGid_def all_digits_def)
next
  assume "\<not> prefix gid_prefix (String_or_empty c) \<and> \<not> all_digits (String_or_empty c)"
  then show "toOrderGid c = None"
    by (simp add: toOrderGid_def Let_def)
next
  fix g
  assume "toOrderGid (orderGid rq) = Some g
            \<or> (toOrderGid (orderGid rq) = None \<and> toOrderGid (orderId rq) = Some g)"
  then have "or_else (toOrderGid (orderGid rq)) (toOrderGid (orderId rq)) = Some g" "g \<noteq> []"
    by (auto simp: or_else_def dest: toOrderGid_truthy)
  with assms show "validate e rq =
              (if \<not> truthy (targetShippingTitle rq)
                  \<or> trim_is_empty (String_or_empty (targetShippingTitle rq))
               then Inl (errRes e 400 ''Missing targetShippingTitle'' None)
               else Inr (rg, g))"
    by (cases "shopDomain rq") (auto simp: validate_def isValidShop_def)
next
  assume "toOrderGid (orderGid rq) = None \<and> toOrderGid (orderId rq) = None"
  then have "or_else (toOrderGid (orderGid rq)) (toOrderGid (orderId rq)) = None"
    by (simp add: or_else_def)
  with assms show "handler e pf nt rq =
              (\<lparr>res_status = 400,
                res_body = ErrorBody ''Missing/invalid orderGid/orderId'' None\<rparr>, [])"
    by (cases "shopDomain rq") (auto simp: handler_def validate_def isValidShop_def)
qed

text \<open>Facts about the example shop.\<close>

lemma ex_byShop_uk: "byShop ex_env ''demo-uk.myshopify.com'' = Some ex_region"
  by (simp add: byShop_def regions_def ex_env_def ex_region_def)

lemma ex_byShop_eu: "byShop ex_env ''demo-eu.myshopify.com'' = Some ex_region_eu"
  by (simp add: byShop_def regions_def ex_env_def ex_region_eu_def)

lemma ex_valid_shop: "isValidShop (Some ''demo-uk.myshopify.com'')"
  by (simp add: isValidShop_def label_char_def)

lemma ex_valid_shop_eu: "isValidShop (Some ''demo-eu.myshopify.com'')"
  by (simp add: isValidShop_def label_char_def)

theorem order_reference_canonicalization_witness:
  "toOrderGid (Some ''gid://shopify/Order/77'') = Some ''gid://shopify/Order/77''
   \<and> toOrderGid (Some ''12345'') = Some ''gid://shopify/Order/12345''
   \<and> toOrderGid (Some ''12a45'') = None
   \<and> validate ex_env (ex_request\<lparr>orderGid := Some ''#1001'', orderId := Some ''12345''\<rparr>)
        = Inr (ex_region, ''gid://shopify/Order/12345'')
   \<and> handler ex_env ex_pf (ex_net ex_order)
        (ex_request\<lparr>orderGid := Some ''#1001'', orderId := Some ''12a45''\<rparr>)
        = (\<lparr>res_status = 400,
            res_body = ErrorBody ''Missing/invalid orderGid/orderId'' None\<rparr>, [])"
proof -
  let ?rq1 = "ex_request\<lparr>orderGid := Some ''#1001'', orderId := Some ''12345''\<rparr>"
  let ?rq2 = "ex_request\<lparr>orderGid := Some ''#1001'', orderId := Some ''12a45''\<rparr>"
  have t: "toOrderGid (Some ''#1001'') = None"
    "toOrderGid (Some ''12a45'') = None"
    "toOrderGid (Some ''12345'') = Some ''gid://shopify/Order/12345''"
    by (simp_all add: toOrderGid_def gid_prefix_def all_digits_def digit_char_def)
  have a1: "isValidShop (shopDomain ?rq1)" "isValidShop (shopDomain ?rq2)"
    by (simp_all add: ex_request_def ex_valid_shop)
  have a2: "byShop ex_env (String_or_empty (shopDomain ?rq1)) = Some ex_region"
    "byShop ex_env (String_or_empty (shopDomain ?rq2)) = Some ex_region"
    by (simp_all add: ex_request_def ex_byShop_uk)
  have a3: "truthy (flowSecret ex_region) \<longrightarrow> tscEq (xFlowSecret ?rq1) (flowSecret ex_region)"
    "truthy (flowSecret ex_region) \<longrightarrow> tscEq (xFlowSecret ?rq2) (flowSecret ex_region)"
    by (simp_all add: ex_region_def)
  have p: "prefix gid_prefix ''gid://shopify/Order/77''" "all_digits ''12345''"
    "\<not> prefix gid_prefix (String_or_empty (Some ''12a45'')) \<and> \<not> all_digits (String_or_empty (Some ''12a45''))"
    by (simp_all add: gid_prefix_def all_digits_def digit_char_def)
  have q: "\<not> trim_is_empty ''DHL_PAKET::Standard''"
    by (simp add: trim_is_empty_def)
  from order_reference_canonicalization [OF a1(1) a2(1) a3(1), of "''gid://shopify/Order/77''" "Some ''12a45''" ex_pf "ex_net ex_order"]
    order_reference_canonicalization [OF a1(1) a2(1) a3(1), of "''12345''" "Some ''12a45''" ex_pf "ex_net ex_order"]
    order_reference_canonicalization [OF a1(2) a2(2) a3(2), of "''12345''" "Some ''12a45''" ex_pf "ex_net ex_order"]
    p t q
  show ?thesis
    by (simp add: ex_request_def)
qed


text \<open>
  Claim C9. Whatever follows the prefix \<^verbatim>\<open>gid://shopify/Order/\<close> (nothing, letters, ...),
  the candidate is returned unchanged, the request passes validation, and, the region having
  a token, the first request issued is the order fetch with that identifier.
\<close>

theorem prefixed_reference_not_inspected:
  assumes "isValidShop (shopDomain rq)"
    and "byShop e (String_or_empty (shopDomain rq)) = Some rg"
    and "truthy (flowSecret rg) \<longrightarrow> tscEq (xFlowSecret rq) (flowSecret rg)"
    and "orderGid rq = Some (gid_prefix @ rest)"
    and "truthy (targetShippingTitle rq)"
    and "\<not> trim_is_empty (String_or_empty (targetShippingTitle rq))"
    and "truthy (adminToken rg)"
  shows "toOrderGid (Some (gid_prefix @ rest)) = Some (gid_prefix @ rest)
       \<and> validate e rq = Inr (rg, gid_prefix @ rest)
       \<and> (\<exists>rs. snd (handler e pf nt rq)
                 = fetch_request e rg (GetOrder (gid_prefix @ rest)) # rs)"
proof -
  have g: "toOrderGid (Some (gid_prefix @ rest)) = Some (gid_prefix @ rest)"
    by (simp add: toOrderGid_def gid_prefix_def)
  then have "or_else (toOrderGid (orderGid rq)) (toOrderGid (orderId rq))
               = Some (gid_prefix @ rest)"
    using assms(4) by (simp add: or_else_def gid_prefix_def)
  with assms have v: "validate e rq = Inr (rg, gid_prefix @ rest)"
    by (cases "shopDomain rq") (auto simp: validate_def isValidShop_def gid_prefix_def)
  from fetch_step_first [OF assms(7)] handler_valid [OF v] g v show ?thesis
    by simp
qed

theorem prefixed_reference_not_inspected_witness:
  "validate ex_env (ex_request\<lparr>orderGid := Some ''gid://shopify/Order/abc''\<rparr>)
      = Inr (ex_region, ''gid://shopify/Order/abc'')
   \<and> (\<exists>rs. snd (handler ex_env ex_pf (ex_net ex_order)
                   (ex_request\<lparr>orderGid := Some ''gid://shopify/Order/abc''\<rparr>))
         = fetch_request ex_env ex_region (GetOrder ''gid://shopify/Order/abc'') # rs)
   \<and> validate ex_env (ex_request\<lparr>orderGid := Some ''gid://shopify/Order/''\<rparr>)
      = Inr (ex_region, ''gid://shopify/Order/'')
   \<and> (\<exists>rs. snd (handler ex_env ex_pf (ex_net ex_order)
                   (ex_request\<lparr>orderGid := Some ''gid://shopify/Order/''\<rparr>))
         = fetch_request ex_env ex_region (GetOrder ''gid://shopify/Order/'') # rs)"
proof -
  let ?rq1 = "ex_request\<lparr>orderGid := Some ''gid://shopify/Order/abc''\<rparr>"
  let ?rq2 = "ex_request\<lparr>orderGid := Some ''gid://shopify/Order/''\<rparr>"
  have a1: "isValidShop (shopDomain ?rq1)" "isValidShop (shopDomain ?rq2)"
    by (simp_all add: ex_request_def ex_valid_shop)
  have a2: "byShop ex_env (String_or_empty (shopDomain ?rq1)) = Some ex_region"
    "byShop ex_env (String_or_empty (shopDomain ?rq2)) = Some ex_region"
    by (simp_all add: ex_request_def ex_byShop_uk)
  have a3: "truthy (flowSecret ex_region) \<longrightarrow> tscEq (xFlowSecret ?rq1) (flowSecret ex_region)"
    "truthy (flowSecret ex_region) \<longrightarrow> tscEq (xFlowSecret ?rq2) (flowSecret ex_region)"
    by (simp_all add: ex_region_def)
  have a4: "orderGid ?rq1 = Some (gid_prefix @ ''abc'')" "orderGid ?rq2 = Some (gid_prefix @ [])"
    by (simp_all add: gid_prefix_def)
  have a5: "truthy (targetShippingTitle ?rq1)" "truthy (targetShippingTitle ?rq2)"
    by (simp_all add: ex_request_def)
  have a6: "\<not> trim_is_empty (String_or_empty (targetShippingTitle ?rq1))"
    "\<not> trim_is_empty (String_or_empty (targetShippingTitle ?rq2))"
    by (simp_all add: ex_request_def trim_is_empty_def)
  have a7: "truthy (adminToken ex_region)"
    by (simp add: ex_region_def)
  from prefixed_reference_not_inspected [OF a1(1) a2(1) a3(1) a4(1) a5(1) a6(1) a7, of ex_pf "ex_net ex_order"]
    prefixed_reference_not_inspected [OF a1(2) a2(2) a3(2) a4(2) a5(2) a6(2) a7, of ex_pf "ex_net ex_order"]
  show ?thesis
    by (simp add: gid_prefix_def)
qed

text \<open>
  Claim C10. Once the domain is valid and its region, which has a shared secret, is
  resolved, a header that differs from the secret (an absent header counting as empty) is
  answered 401 \<^verbatim>\<open>Bad X-Flow-Secret\<close> with no request issued, whatever the order reference
  and the title of the request are: these are only examined afterwards.
\<close>

theorem secret_checked_before_order_and_title:
  assumes "isValidShop (shopDomain rq)"
    and "byShop e (String_or_empty (shopDomain rq)) = Some rg"
    and "truthy (flowSecret rg)"
    and "String_or_empty (xFlowSecret rq) \<noteq> String_or_empty (flowSecret rg)"
  shows "handler e pf nt rq
           = (\<lparr>res_status = 401, res_body = ErrorBody ''Bad X-Flow-Secret'' None\<rparr>, [])"
  using assms
  by (cases "shopDomain rq") (auto simp: handler_def validate_def isValidShop_def tscEq_iff)

theorem secret_checked_before_order_and_title_witness:
  "handler ex_env ex_pf (ex_net ex_order)
     (ex_request\<lparr>shopDomain := Some ''demo-eu.myshopify.com'', orderGid := Some ''#1001'',
        targetShippingTitle := None, xFlowSecret := Some ''s3cre7''\<rparr>)
     = (\<lparr>res_status = 401, res_body = ErrorBody ''Bad X-Flow-Secret'' None\<rparr>, [])
   \<and> handler ex_env ex_pf (ex_net ex_order)
     (ex_request\<lparr>shopDomain := Some ''demo-eu.myshopify.com'', orderGid := Some ''#1001'',
        targetShippingTitle := None, xFlowSecret := Some ''s3cret''\<rparr>)
     = (\<lparr>res_status = 400, res_body = ErrorBody ''Missing/invalid orderGid/orderId'' None\<rparr>, [])"
proof -
  let ?rq = "ex_request\<lparr>shopDomain := Some ''demo-eu.myshopify.com'', orderGid := Some ''#1001'',
        targetShippingTitle := None, xFlowSecret := Some ''s3cre7''\<rparr>"
  have a1: "isValidShop (shopDomain ?rq)"
    by (simp add: ex_valid_shop_eu)
  have a2: "byShop ex_env (String_or_empty (shopDomain ?rq)) = Some ex_region_eu"
    by (simp add: ex_byShop_eu)
  have a3: "truthy (flowSecret ex_region_eu)"
    by (simp add: ex_region_eu_def)
  have a4: "String_or_empty (xFlowSecret ?rq) \<noteq> String_or_empty (flowSecret ex_region_eu)"
    by (simp add: ex_region_eu_def)
  have b: "handler ex_env ex_pf (ex_net ex_order)
     (ex_request\<lparr>shopDomain := Some ''demo-eu.myshopify.com'', orderGid := Some ''#1001'',
        targetShippingTitle := None, xFlowSecret := Some ''s3cret''\<rparr>)
     = (\<lparr>res_status = 400, res_body = ErrorBody ''Missing/invalid orderGid/orderId'' None\<rparr>, [])"
    by (simp add: handler_def validate_def ex_valid_shop_eu ex_byShop_eu ex_region_eu_def
        tscEq_iff ex_request_def toOrderGid_def gid_prefix_def all_digits_def digit_char_def
        or_else_def)
  from secret_checked_before_order_and_title [OF a1 a2 a3 a4, of ex_pf "ex_net ex_order"] b
  show ?thesis by simp
qed

text \<open>
  What the shared-secret check computes. It is consulted only for a region with a
  non-empty secret; a header that differs from the secret, an absent one included, is
  refused with 401; the secret itself passes; and an absent header is compared as the empty
  byte string. (How long \<^verbatim>\<open>crypto.timingSafeEqual\<close> runs is a property of the runtime, and
  outside this model: a function here has a value, not a duration.)
\<close>

lemma validate_header:
  "\<not> truthy (flowSecret rg) \<Longrightarrow> byShop e (String_or_empty (shopDomain rq)) = Some rg \<Longrightarrow>
   validate e (rq\<lparr>xFlowSecret := x\<rparr>) = validate e rq"
  by (auto simp: validate_def Let_def)

lemma shared_secret_check:
  assumes "isValidShop (shopDomain rq)"
    and "byShop e (String_or_empty (shopDomain rq)) = Some rg"
  shows "(\<not> truthy (flowSecret rg) \<longrightarrow>
            validate e (rq\<lparr>xFlowSecret := x\<rparr>) = validate e rq)
       \<and> (truthy (flowSecret rg)
            \<and> String_or_empty (xFlowSecret rq) \<noteq> String_or_empty (flowSecret rg) \<longrightarrow>
            handler e pf nt rq =
              (\<lparr>res_status = 401, res_body = ErrorBody ''Bad X-Flow-Secret'' None\<rparr>, []))
       \<and> (truthy (flowSecret rg)
            \<and> String_or_empty (xFlowSecret rq) = String_or_empty (flowSecret rg) \<longrightarrow>
            validate e rq \<noteq> Inl (errRes e 401 ''Bad X-Flow-Secret'' None))
       \<and> (tscEq None (flowSecret rg) \<longleftrightarrow> \<not> truthy (flowSecret rg))"
proof (intro conjI impI)
  assume n: "\<not> truthy (flowSecret rg)"
  show "validate e (rq\<lparr>xFlowSecret := x\<rparr>) = validate e rq"
    using validate_header [OF n assms(2)] .
next
  assume "truthy (flowSecret rg)
            \<and> String_or_empty (xFlowSecret rq) \<noteq> String_or_empty (flowSecret rg)"
  with assms show "handler e pf nt rq =
              (\<lparr>res_status = 401, res_body = ErrorBody ''Bad X-Flow-Secret'' None\<rparr>, [])"
    by (cases "shopDomain rq") (auto simp: handler_def validate_def isValidShop_def tscEq_iff)
next
  assume "truthy (flowSecret rg)
            \<and> String_or_empty (xFlowSecret rq) = String_or_empty (flowSecret rg)"
  with assms show "validate e rq \<noteq> Inl (errRes e 401 ''Bad X-Flow-Secret'' None)"
    by (cases "shopDomain rq")
       (auto simp: validate_def isValidShop_def tscEq_iff Let_def errRes_def split: if_splits)
next
  show "tscEq None (flowSecret rg) \<longleftrightarrow> \<not> truthy (flowSecret rg)"
    by (cases "flowSecret rg") (auto simp: tscEq_iff)
qed

subsection \<open>The edit sequence\<close>

text \<open>The two ways in which the handler issues nothing at all.\<close>

lemma handler_no_token:
  "validate e rq = Inr (rg, gid) \<Longrightarrow> \<not> truthy (adminToken rg) \<Longrightarrow>
   handler e pf nt rq =
     (errRes e 500 ''Server error''
        (Some (DThrown (TokenNotConfigured (if code rg = [] then ''??'' else code rg)))), [])"
  by (simp add: handler_def fetch_step_def sgq_notoken)

lemma handler_invalid:
  "validate e rq = Inl r \<Longrightarrow> handler e pf nt rq = (r, [])"
  by (simp add: handler_def)

lemma req_op_fetch_request [simp]: "req_op (fetch_request e rg opn) = opn"
  by (simp add: fetch_request_def)

lemma assert_Some:
  "assertUserErrors st pl = Some x \<longleftrightarrow> errs_of pl \<noteq> [] \<and> x = UserErrors st (errs_of pl)"
  by (auto simp: assertUserErrors_def Let_def)

lemma assert_None: "assertUserErrors st pl = None \<longleftrightarrow> errs_of pl = []"
  by (auto simp: assertUserErrors_def Let_def)

text \<open>
  From each block on: a request issued at or after the block's start, whose payload came
  back with user errors, is the last request issued, and the block throws the error that
  names its step. The blocks are taken from the last to the first.
\<close>

lemma commit_step_abort:
  assumes t: "truthy (adminToken rg)"
    and o: "commit_step e nt rg rq ord cur p cid issued0 = (out, issued)"
    and i: "length issued0 \<le> i" "i < length issued"
    and g: "gateway_result (nt (take i issued) (issued ! i)) = Inr (Some d)"
    and u: "errs_of (step_payload (req_op (issued ! i)) d) \<noteq> []"
  shows "Suc i = length issued
       \<and> out = Inl (UserErrors (step_name (req_op (issued ! i)))
                     (errs_of (step_payload (req_op (issued ! i)) d)))"
proof -
  let ?r = "fetch_request e rg (Commit cid)"
  from t o have s: "issued = issued0 @ [?r]"
    by (auto simp: commit_step_def sgq_token split: sum.splits option.splits)
  with i have il: "i = length issued0" by simp
  then have n: "issued ! i = ?r" "take i issued = issued0"
    using s by simp_all
  have g': "gateway_result (nt issued0 ?r) = Inr (Some d)"
    using g n by simp
  have u': "errs_of (orderEditCommit d) \<noteq> []"
    using u n by simp
  from t o g' u' have "out = Inl (UserErrors ''orderEditCommit'' (errs_of (orderEditCommit d)))"
    by (auto simp: commit_step_def sgq_token assert_Some assert_None
        split: sum.splits option.splits)
  with s il n show ?thesis by simp
qed

lemma remove_step_abort:
  assumes t: "truthy (adminToken rg)"
    and o: "remove_step e nt rg rq ord cur p cid issued0 = (out, issued)"
    and i: "length issued0 \<le> i" "i < length issued"
    and g: "gateway_result (nt (take i issued) (issued ! i)) = Inr (Some d)"
    and u: "errs_of (step_payload (req_op (issued ! i)) d) \<noteq> []"
  shows "Suc i = length issued
       \<and> out = Inl (UserErrors (step_name (req_op (issued ! i)))
                     (errs_of (step_payload (req_op (issued ! i)) d)))"
proof (cases cur)
  case None
  with o have "commit_step e nt rg rq ord cur p cid issued0 = (out, issued)"
    by (simp add: remove_step_def)
  from commit_step_abort [OF t this i g u] show ?thesis .
next
  case (Some c)
  let ?r = "fetch_request e rg (Remove cid (sl_id c))"
  have "\<exists>new. issued = issued0 @ ?r # new"
    using t o Some commit_step_extends [OF t, of e nt rq ord cur p cid "issued0 @ [?r]"]
    by (auto simp: remove_step_def sgq_token split: sum.splits option.splits)
  then obtain new where s: "issued = issued0 @ ?r # new" by blast
  show ?thesis
  proof (cases "i = length issued0")
    case True
    then have n: "issued ! i = ?r" "take i issued = issued0"
      using s by simp_all
    have g': "gateway_result (nt issued0 ?r) = Inr (Some d)"
      using g n by simp
    have u': "errs_of (orderEditRemoveShippingLine d) \<noteq> []"
      using u n by simp
    from t o g' u' Some
    have "out = Inl (UserErrors ''orderEditRemoveShippingLine''
                       (errs_of (orderEditRemoveShippingLine d)))
          \<and> issued = issued0 @ [?r]"
      by (auto simp: remove_step_def sgq_token assert_Some assert_None
          split: sum.splits option.splits)
    with True n show ?thesis by simp
  next
    case False
    with i have i': "length (issued0 @ [?r]) \<le> i" by simp
    from False i s have "new \<noteq> []" by auto
    with t o Some s have "commit_step e nt rg rq ord cur p cid (issued0 @ [?r]) = (out, issued)"
      by (auto simp: remove_step_def sgq_token split: sum.splits option.splits)
    from commit_step_abort [OF t this i' i(2) g u] show ?thesis .
  qed
qed

lemma add_step_abort:
  assumes t: "truthy (adminToken rg)"
    and o: "add_step e nt rg rq ord cur p cid issued0 = (out, issued)"
    and i: "length issued0 \<le> i" "i < length issued"
    and g: "gateway_result (nt (take i issued) (issued ! i)) = Inr (Some d)"
    and u: "errs_of (step_payload (req_op (issued ! i)) d) \<noteq> []"
  shows "Suc i = length issued
       \<and> out = Inl (UserErrors (step_name (req_op (issued ! i)))
                     (errs_of (step_payload (req_op (issued ! i)) d)))"
proof -
  let ?r = "fetch_request e rg (Add cid (String_or_empty (targetShippingTitle rq)) p)"
  have "\<exists>new. issued = issued0 @ ?r # new"
    using t o remove_step_extends [OF t, of e nt rq ord cur p cid "issued0 @ [?r]"]
    by (auto simp: add_step_def sgq_token split: sum.splits option.splits)
  then obtain new where s: "issued = issued0 @ ?r # new" by blast
  show ?thesis
  proof (cases "i = length issued0")
    case True
    then have n: "issued ! i = ?r" "take i issued = issued0"
      using s by simp_all
    have g': "gateway_result (nt issued0 ?r) = Inr (Some d)"
      using g n by simp
    have u': "errs_of (orderEditAddShippingLine d) \<noteq> []"
      using u n by simp
    from t o g' u'
    have "out = Inl (UserErrors ''orderEditAddShippingLine''
                       (errs_of (orderEditAddShippingLine d)))
          \<and> issued = issued0 @ [?r]"
      by (auto simp: add_step_def sgq_token assert_Some assert_None
          split: sum.splits option.splits)
    with True n show ?thesis by simp
  next
    case False
    with i have i': "length (issued0 @ [?r]) \<le> i" by simp
    from False i s have "new \<noteq> []" by auto
    with t o s have "remove_step e nt rg rq ord cur p cid (issued0 @ [?r]) = (out, issued)"
      by (auto simp: add_step_def sgq_token split: sum.splits option.splits)
    from remove_step_abort [OF t this i' i(2) g u] show ?thesis .
  qed
qed

lemma begin_step_abort:
  assumes t: "truthy (adminToken rg)"
    and o: "begin_step e nt rg gid rq ord cur p issued0 = (out, issued)"
    and i: "length issued0 \<le> i" "i < length issued"
    and g: "gateway_result (nt (take i issued) (issued ! i)) = Inr (Some d)"
    and u: "errs_of (step_payload (req_op (issued ! i)) d) \<noteq> []"
  shows "Suc i = length issued
       \<and> out = Inl (UserErrors (step_name (req_op (issued ! i)))
                     (errs_of (step_payload (req_op (issued ! i)) d)))"
proof -
  let ?r = "fetch_request e rg (Begin gid)"
  have "\<exists>new. issued = issued0 @ ?r # new"
  proof (cases "\<exists>cid. add_step e nt rg rq ord cur p cid (issued0 @ [?r]) = (out, issued)")
    case True
    then obtain cid where "add_step e nt rg rq ord cur p cid (issued0 @ [?r]) = (out, issued)"
      by blast
    with add_step_extends [OF t, of e nt rq ord cur p cid "issued0 @ [?r]"]
    show ?thesis by auto
  next
    case False
    with t o show ?thesis
      by (auto simp: begin_step_def sgq_token split: sum.splits option.splits if_splits)
  qed
  then obtain new where s: "issued = issued0 @ ?r # new" by blast
  show ?thesis
  proof (cases "i = length issued0")
    case True
    then have n: "issued ! i = ?r" "take i issued = issued0"
      using s by simp_all
    have g': "gateway_result (nt issued0 ?r) = Inr (Some d)"
      using g n by simp
    have u': "errs_of (orderEditBegin d) \<noteq> []"
      using u n by simp
    from t o g' u'
    have "out = Inl (UserErrors ''orderEditBegin'' (errs_of (orderEditBegin d)))
          \<and> issued = issued0 @ [?r]"
      by (auto simp: begin_step_def sgq_token assert_Some assert_None
          split: sum.splits option.splits)
    with True n show ?thesis by simp
  next
    case False
    with i have i': "length (issued0 @ [?r]) \<le> i" by simp
    from False i s have "new \<noteq> []" by auto
    with t o s obtain cid where
      "add_step e nt rg rq ord cur p cid (issued0 @ [?r]) = (out, issued)"
      by (auto simp: begin_step_def sgq_token split: sum.splits option.splits if_splits)
    from add_step_abort [OF t this i' i(2) g u] show ?thesis .
  qed
qed

lemma fetch_step_abort:
  assumes t: "truthy (adminToken rg)"
    and o: "fetch_step e pf nt rg gid rq = (out, issued)"
    and i: "i < length issued"
    and g: "gateway_result (nt (take i issued) (issued ! i)) = Inr (Some d)"
    and u: "errs_of (step_payload (req_op (issued ! i)) d) \<noteq> []"
  shows "Suc i = length issued
       \<and> out = Inl (UserErrors (step_name (req_op (issued ! i)))
                     (errs_of (step_payload (req_op (issued ! i)) d)))"
proof -
  let ?r = "fetch_request e rg (GetOrder gid)"
  from fetch_step_first [OF t, of e pf nt gid rq] o
  obtain new where s: "issued = ?r # new" by auto
  have "i \<noteq> 0"
  proof
    assume "i = 0"
    with s have "req_op (issued ! i) = GetOrder gid" by simp
    with u show False by (simp add: errs_of_def)
  qed
  then have i': "length [?r] \<le> i" by simp
  from \<open>i \<noteq> 0\<close> i s have "new \<noteq> []" by auto
  with t o s obtain ord cur p where
    "begin_step e nt rg gid rq ord cur p [?r] = (out, issued)"
    by (auto simp: fetch_step_def price_step_def dry_run_step_def Let_def sgq_token
        split: sum.splits option.splits if_splits)
  from begin_step_abort [OF t this i' i g u] show ?thesis .
qed


lemma step_name_hidden:
  "mutating opn \<Longrightarrow> \<not> sublist (step_name opn) ''Server error''"
  by (cases opn) (simp_all add: sublist_code)

text \<open>
  Claim C4, as amended. Take any request issued by a run of the handler that is a mutating
  call (begin, add, remove, commit) and whose response payload has a non-empty user-errors
  list. Then it is the last request issued (no later step is invoked), the handler answers
  500 \<^verbatim>\<open>Server error\<close>, the error it caught names the step, and the response shows the step
  name exactly when the debug flag is on: \<open>errRes\<close> attaches the details only then.
\<close>

theorem user_errors_abort_sequence:
  assumes h: "handler e pf nt rq = (res, issued)"
    and i: "i < length issued"
    and m: "mutating (req_op (issued ! i))"
    and g: "gateway_result (nt (take i issued) (issued ! i)) = Inr (Some d)"
    and u: "errs_of (step_payload (req_op (issued ! i)) d) \<noteq> []"
  shows "Suc i = length issued
       \<and> res = errRes e 500 ''Server error''
                 (Some (DThrown (UserErrors (step_name (req_op (issued ! i)))
                                   (errs_of (step_payload (req_op (issued ! i)) d)))))
       \<and> (names_step res (step_name (req_op (issued ! i))) \<longleftrightarrow> debug e)"
proof (cases "validate e rq")
  case (Inl r)
  with h i show ?thesis by (simp add: handler_invalid)
next
  case (Inr p)
  then obtain rg gid where v: "validate e rq = Inr (rg, gid)" by (cases p) auto
  show ?thesis
  proof (cases "truthy (adminToken rg)")
    case False
    with v h i show ?thesis by (simp add: handler_no_token)
  next
    case True
    obtain out where o: "fetch_step e pf nt rg gid rq = (out, issued)"
      using v h by (auto simp: handler_def split: prod.splits sum.splits)
    from fetch_step_abort [OF True o i g u]
    have a: "Suc i = length issued"
      and b: "out = Inl (UserErrors (step_name (req_op (issued ! i)))
                     (errs_of (step_payload (req_op (issued ! i)) d)))"
      by simp_all
    from v h o b
    have r: "res = errRes e 500 ''Server error''
                 (Some (DThrown (UserErrors (step_name (req_op (issued ! i)))
                                   (errs_of (step_payload (req_op (issued ! i)) d)))))"
      by (simp add: handler_def)
    have "names_step res (step_name (req_op (issued ! i))) \<longleftrightarrow> debug e"
      unfolding r using step_name_hidden [OF m]
      by (simp add: names_step_def errRes_def)
    with a r show ?thesis by simp
  qed
qed

text \<open>Facts about the example runs.\<close>

lemma ex_validate:
  "validate ex_env ex_request = Inr (ex_region, ''gid://shopify/Order/1'')"
  by (simp add: validate_def ex_valid_shop ex_byShop_uk ex_request_def ex_region_def
      toOrderGid_def or_else_def gid_prefix_def trim_is_empty_def)

lemma ex_token: "truthy (adminToken ex_region)"
  by (simp add: ex_region_def)

lemma ex_debug: "\<not> debug ex_env"
  by (simp add: debug_def ex_env_def toLowerCase_def lower_char_def)

lemma gateway_answer [simp]: "gateway_result (answer d) = Inr (Some d)"
  by (simp add: gateway_result_def answer_def)

lemma ex_current [simp]: "current_line ex_order = Some ex_line"
  by (simp add: current_line_def ex_order_def)

lemma ex_amount [simp]: "parseFloat_opt ex_pf (amountStr ex_line) = Finite 5"
  by (simp add: parseFloat_opt_def amountStr_def ex_line_def ex_pf_def)

lemma ex_request_fields [simp]:
  "dryRun ex_request = False"
  "shopDomain ex_request = Some ''demo-uk.myshopify.com''"
  "targetShippingTitle ex_request = Some ''DHL_PAKET::Standard''"
  "targetShippingPrice ex_request = None"
  by (simp_all add: ex_request_def)

lemma ex_begin_refused_run:
  "handler ex_env ex_pf ex_net_begin_refused ex_request =
     (\<lparr>res_status = 500, res_body = ErrorBody ''Server error'' None\<rparr>,
      [fetch_request ex_env ex_region (GetOrder ''gid://shopify/Order/1''),
       fetch_request ex_env ex_region (Begin ''gid://shopify/Order/1'')])"
  by (simp add: handler_def ex_validate fetch_step_def price_step_def dry_run_step_def
      begin_step_def sgq_token ex_token ex_net_begin_refused_def ex_net_def no_data_def
      assertUserErrors_def errs_of_def bad_payload_def errRes_def ex_debug)

text \<open>
  Claim C4 as stated fails: with the debug flag off (its default), a begin call answered
  with user errors yields the body \<^verbatim>\<open>{error: "Server error"}\<close>, which does not show the
  step name.
\<close>

theorem step_name_hidden_counterexample:
  "handler ex_env ex_pf ex_net_begin_refused ex_request =
     (\<lparr>res_status = 500, res_body = ErrorBody ''Server error'' None\<rparr>,
      [fetch_request ex_env ex_region (GetOrder ''gid://shopify/Order/1''),
       fetch_request ex_env ex_region (Begin ''gid://shopify/Order/1'')])
   \<and> gateway_result
        (ex_net_begin_refused
           [fetch_request ex_env ex_region (GetOrder ''gid://shopify/Order/1'')]
           (fetch_request ex_env ex_region (Begin ''gid://shopify/Order/1'')))
       = Inr (Some (no_data\<lparr>orderEditBegin := Some bad_payload\<rparr>))
   \<and> errs_of (Some bad_payload) \<noteq> []
   \<and> \<not> names_step \<lparr>res_status = 500, res_body = ErrorBody ''Server error'' None\<rparr>
          ''orderEditBegin''"
  by (simp add: ex_begin_refused_run ex_net_begin_refused_def errs_of_def bad_payload_def
      names_step_def sublist_code)

text \<open>The same run with the debug flag on.\<close>

lemma byShop_debug [simp]: "byShop (e\<lparr>DEBUG_ERRORS := x\<rparr>) = byShop e"
  by (simp add: byShop_def regions_def fun_eq_iff)

lemma ex_validate_debug:
  "validate (ex_env\<lparr>DEBUG_ERRORS := Some ''TRUE''\<rparr>) ex_request
     = Inr (ex_region, ''gid://shopify/Order/1'')"
  by (simp add: validate_def ex_valid_shop ex_byShop_uk ex_region_def
      toOrderGid_def or_else_def gid_prefix_def trim_is_empty_def ex_request_def)

lemma ex_debug_on: "debug (ex_env\<lparr>DEBUG_ERRORS := Some ''TRUE''\<rparr>)"
  by code_simp

lemma ex_begin_refused_run_debug:
  "handler (ex_env\<lparr>DEBUG_ERRORS := Some ''TRUE''\<rparr>) ex_pf ex_net_begin_refused ex_request =
     (\<lparr>res_status = 500,
       res_body = ErrorBody ''Server error''
         (Some (DThrown (UserErrors ''orderEditBegin''
            [\<lparr>ue_field = None, ue_message = ''The order cannot be edited''\<rparr>])))\<rparr>,
      [fetch_request (ex_env\<lparr>DEBUG_ERRORS := Some ''TRUE''\<rparr>) ex_region
         (GetOrder ''gid://shopify/Order/1''),
       fetch_request (ex_env\<lparr>DEBUG_ERRORS := Some ''TRUE''\<rparr>) ex_region
         (Begin ''gid://shopify/Order/1'')])"
  by (simp add: handler_def ex_validate_debug fetch_step_def price_step_def dry_run_step_def
      begin_step_def sgq_token ex_token ex_net_begin_refused_def ex_net_def no_data_def
      assertUserErrors_def errs_of_def bad_payload_def errRes_def ex_debug_on Let_def)

theorem user_errors_abort_sequence_witness:
  "Suc 1 = length (snd (handler ex_env ex_pf ex_net_begin_refused ex_request))
   \<and> fst (handler ex_env ex_pf ex_net_begin_refused ex_request)
       = errRes ex_env 500 ''Server error''
           (Some (DThrown (UserErrors ''orderEditBegin''
              [\<lparr>ue_field = None, ue_message = ''The order cannot be edited''\<rparr>])))
   \<and> \<not> names_step (fst (handler ex_env ex_pf ex_net_begin_refused ex_request))
         ''orderEditBegin''
   \<and> names_step
         (fst (handler (ex_env\<lparr>DEBUG_ERRORS := Some ''TRUE''\<rparr>) ex_pf ex_net_begin_refused
                 ex_request))
         ''orderEditBegin''"
proof -
  let ?e = "ex_env\<lparr>DEBUG_ERRORS := Some ''TRUE''\<rparr>"
  let ?issued = "[fetch_request ex_env ex_region (GetOrder ''gid://shopify/Order/1''),
       fetch_request ex_env ex_region (Begin ''gid://shopify/Order/1'')]"
  let ?issued' = "[fetch_request ?e ex_region (GetOrder ''gid://shopify/Order/1''),
       fetch_request ?e ex_region (Begin ''gid://shopify/Order/1'')]"
  let ?d = "no_data\<lparr>orderEditBegin := Some bad_payload\<rparr>"
  have i: "1 < length ?issued" "1 < length ?issued'" by simp_all
  have m: "mutating (req_op (?issued ! 1))" "mutating (req_op (?issued' ! 1))" by simp_all
  have g: "gateway_result (ex_net_begin_refused (take 1 ?issued) (?issued ! 1)) = Inr (Some ?d)"
    "gateway_result (ex_net_begin_refused (take 1 ?issued') (?issued' ! 1)) = Inr (Some ?d)"
    by (simp_all add: ex_net_begin_refused_def)
  have u: "errs_of (step_payload (req_op (?issued ! 1)) ?d) \<noteq> []"
    "errs_of (step_payload (req_op (?issued' ! 1)) ?d) \<noteq> []"
    by (simp_all add: errs_of_def bad_payload_def)
  from user_errors_abort_sequence [OF ex_begin_refused_run i(1) m(1) g(1) u(1)]
    user_errors_abort_sequence [OF ex_begin_refused_run_debug i(2) m(2) g(2) u(2)]
    ex_debug ex_debug_on
  show ?thesis
    by (auto simp add: ex_begin_refused_run ex_begin_refused_run_debug errs_of_def bad_payload_def)
qed

text \<open>The begin block when the response carries no usable handle.\<close>

lemma begin_step_no_handle:
  assumes t: "truthy (adminToken rg)"
    and o: "begin_step e nt rg gid rq ord cur p issued0 = (out, issued)"
    and g: "gateway_result (nt issued0 (fetch_request e rg (Begin gid))) = Inr dopt"
    and c: "\<not> truthy (begin_handle dopt)"
  shows "issued = issued0 @ [fetch_request e rg (Begin gid)]
       \<and> out = (case dopt of
                  None \<Rightarrow> Inl (TypeError ''orderEditBegin'')
                | Some d2 \<Rightarrow>
                    if errs_of (orderEditBegin d2) = []
                    then Inr (errRes e 500 ''Missing calculatedOrderId'' None)
                    else Inl (UserErrors ''orderEditBegin'' (errs_of (orderEditBegin d2))))"
proof (cases dopt)
  case None
  with t o g show ?thesis
    by (auto simp: begin_step_def sgq_token)
next
  case (Some d2)
  with t o g c show ?thesis
    by (cases "calculatedOrderId (orderEditBegin d2)")
       (auto simp: begin_step_def sgq_token assert_Some assert_None begin_handle_def
          split: option.splits if_splits)
qed

lemma fetch_step_second:
  assumes t: "truthy (adminToken rg)"
    and o: "fetch_step e pf nt rg gid rq = (out, r1 # r2 # rest)"
  shows "r1 = fetch_request e rg (GetOrder gid) \<and> r2 = fetch_request e rg (Begin gid)
       \<and> (\<exists>ord cur p. begin_step e nt rg gid rq ord cur p [r1] = (out, r1 # r2 # rest))"
proof -
  let ?r = "fetch_request e rg (GetOrder gid)"
  from t o obtain ord cur p where
    b: "begin_step e nt rg gid rq ord cur p [?r] = (out, r1 # r2 # rest)"
    by (auto simp: fetch_step_def price_step_def dry_run_step_def Let_def sgq_token
        split: sum.splits option.splits if_splits)
  have "\<exists>new. r1 # r2 # rest = [?r] @ fetch_request e rg (Begin gid) # new"
  proof (cases "\<exists>cid. add_step e nt rg rq ord cur p cid ([?r] @ [fetch_request e rg (Begin gid)])
                        = (out, r1 # r2 # rest)")
    case True
    then obtain cid where
      "add_step e nt rg rq ord cur p cid ([?r] @ [fetch_request e rg (Begin gid)])
         = (out, r1 # r2 # rest)"
      by blast
    with add_step_extends [OF t, of e nt rq ord cur p cid "[?r] @ [fetch_request e rg (Begin gid)]"]
    show ?thesis by auto
  next
    case False
    with t b show ?thesis
      by (auto simp: begin_step_def sgq_token split: sum.splits option.splits if_splits)
  qed
  with b show ?thesis by auto
qed

text \<open>
  Claim C5, as amended. If a second request was issued and the gateway accepts its response
  (HTTP ok, JSON, no top-level errors), and that response delivers no handle
  (\<^verbatim>\<open>data?.orderEditBegin?.calculatedOrder?.id\<close> is absent or empty), then that request is the
  begin call, it is the last request issued (add, remove and commit are never invoked), and
  the answer has status 500. The error is \<^verbatim>\<open>Missing calculatedOrderId\<close> when the response
  has data and its begin payload has no user errors; it is \<^verbatim>\<open>Server error\<close> when the
  payload has user errors (that assertion comes first) and when the response has no data
  at all (reading \<^verbatim>\<open>orderEditBegin\<close> of it throws).
\<close>

theorem begin_without_handle_stops:
  assumes h: "handler e pf nt rq = (res, issued)"
    and s: "issued = r1 # r2 # rest"
    and g: "gateway_result (nt [r1] r2) = Inr dopt"
    and c: "\<not> truthy (begin_handle dopt)"
  shows "rest = []
       \<and> (\<exists>gid. req_op r1 = GetOrder gid \<and> req_op r2 = Begin gid)
       \<and> res_status res = 500
       \<and> res = (case dopt of
                  None \<Rightarrow> errRes e 500 ''Server error''
                            (Some (DThrown (TypeError ''orderEditBegin'')))
                | Some d2 \<Rightarrow>
                    if errs_of (orderEditBegin d2) = []
                    then \<lparr>res_status = 500,
                          res_body = ErrorBody ''Missing calculatedOrderId'' None\<rparr>
                    else errRes e 500 ''Server error''
                           (Some (DThrown (UserErrors ''orderEditBegin''
                                             (errs_of (orderEditBegin d2))))))"
proof (cases "validate e rq")
  case (Inl r)
  with h s show ?thesis by (simp add: handler_invalid)
next
  case (Inr p)
  then obtain rg gid where v: "validate e rq = Inr (rg, gid)" by (cases p) auto
  show ?thesis
  proof (cases "truthy (adminToken rg)")
    case False
    with v h s show ?thesis by (simp add: handler_no_token)
  next
    case True
    obtain out where o: "fetch_step e pf nt rg gid rq = (out, r1 # r2 # rest)"
      using v h s by (auto simp: handler_def split: prod.splits sum.splits)
    from fetch_step_second [OF True o] obtain ord cur p where
      r: "r1 = fetch_request e rg (GetOrder gid)" "r2 = fetch_request e rg (Begin gid)"
      and b: "begin_step e nt rg gid rq ord cur p [r1] = (out, r1 # r2 # rest)"
      by blast
    from g r have g': "gateway_result (nt [r1] (fetch_request e rg (Begin gid))) = Inr dopt"
      by simp
    from begin_step_no_handle [OF True b g' c]
    have n: "rest = []"
      and out: "out = (case dopt of
                  None \<Rightarrow> Inl (TypeError ''orderEditBegin'')
                | Some d2 \<Rightarrow>
                    if errs_of (orderEditBegin d2) = []
                    then Inr (errRes e 500 ''Missing calculatedOrderId'' None)
                    else Inl (UserErrors ''orderEditBegin'' (errs_of (orderEditBegin d2))))"
      by simp_all
    from v h o out s
    have "res = (case dopt of
                  None \<Rightarrow> errRes e 500 ''Server error''
                            (Some (DThrown (TypeError ''orderEditBegin'')))
                | Some d2 \<Rightarrow>
                    if errs_of (orderEditBegin d2) = []
                    then \<lparr>res_status = 500,
                          res_body = ErrorBody ''Missing calculatedOrderId'' None\<rparr>
                    else errRes e 500 ''Server error''
                           (Some (DThrown (UserErrors ''orderEditBegin''
                                             (errs_of (orderEditBegin d2))))))"
      by (auto simp: handler_def split: option.splits)
    with n r show ?thesis by (auto split: option.splits)
  qed
qed

lemma ex_begin_empty_run:
  "handler ex_env ex_pf ex_net_begin_empty ex_request =
     (\<lparr>res_status = 500, res_body = ErrorBody ''Missing calculatedOrderId'' None\<rparr>,
      [fetch_request ex_env ex_region (GetOrder ''gid://shopify/Order/1''),
       fetch_request ex_env ex_region (Begin ''gid://shopify/Order/1'')])"
  by (simp add: handler_def ex_validate fetch_step_def price_step_def dry_run_step_def
      begin_step_def sgq_token ex_token ex_net_begin_empty_def ex_net_def no_data_def
      assertUserErrors_def errs_of_def calculatedOrderId_def)

text \<open>
  Claim C5 as stated fails on the message: a begin response without a calculated order and
  with user errors is answered \<^verbatim>\<open>Server error\<close>, not \<^verbatim>\<open>Missing calculatedOrderId\<close>.
\<close>

theorem missing_handle_message_counterexample:
  "calculatedOrderId (orderEditBegin (no_data\<lparr>orderEditBegin := Some bad_payload\<rparr>)) = None
   \<and> gateway_result
        (ex_net_begin_refused
           [fetch_request ex_env ex_region (GetOrder ''gid://shopify/Order/1'')]
           (fetch_request ex_env ex_region (Begin ''gid://shopify/Order/1'')))
       = Inr (Some (no_data\<lparr>orderEditBegin := Some bad_payload\<rparr>))
   \<and> fst (handler ex_env ex_pf ex_net_begin_refused ex_request)
       = \<lparr>res_status = 500, res_body = ErrorBody ''Server error'' None\<rparr>
   \<and> res_body (fst (handler ex_env ex_pf ex_net_begin_refused ex_request))
       \<noteq> ErrorBody ''Missing calculatedOrderId'' None"
  by (simp add: ex_begin_refused_run ex_net_begin_refused_def calculatedOrderId_def
      bad_payload_def)

lemma gateway_no_data [simp]:
  "gateway_result
     (Responded \<lparr>resp_ok = True, resp_status = 200, resp_text = [],
                 resp_json = Some \<lparr>errors = None, data = None\<rparr>\<rparr>) = Inr None"
  by (simp add: gateway_result_def)

lemma ex_begin_no_data_run:
  "handler ex_env ex_pf ex_net_begin_no_data ex_request =
     (\<lparr>res_status = 500, res_body = ErrorBody ''Server error'' None\<rparr>,
      [fetch_request ex_env ex_region (GetOrder ''gid://shopify/Order/1''),
       fetch_request ex_env ex_region (Begin ''gid://shopify/Order/1'')])"
  by (simp add: handler_def ex_validate fetch_step_def price_step_def dry_run_step_def
      begin_step_def sgq_token ex_token ex_net_begin_no_data_def ex_net_def no_data_def
      errRes_def ex_debug Let_def)

theorem begin_without_handle_stops_witness:
  "handler ex_env ex_pf ex_net_begin_empty ex_request
     = (\<lparr>res_status = 500, res_body = ErrorBody ''Missing calculatedOrderId'' None\<rparr>,
        [fetch_request ex_env ex_region (GetOrder ''gid://shopify/Order/1''),
         fetch_request ex_env ex_region (Begin ''gid://shopify/Order/1'')])
   \<and> handler ex_env ex_pf ex_net_begin_refused ex_request
     = (errRes ex_env 500 ''Server error''
         (Some (DThrown (UserErrors ''orderEditBegin''
            [\<lparr>ue_field = None, ue_message = ''The order cannot be edited''\<rparr>]))),
        [fetch_request ex_env ex_region (GetOrder ''gid://shopify/Order/1''),
         fetch_request ex_env ex_region (Begin ''gid://shopify/Order/1'')])
   \<and> handler ex_env ex_pf ex_net_begin_no_data ex_request
     = (errRes ex_env 500 ''Server error'' (Some (DThrown (TypeError ''orderEditBegin''))),
        [fetch_request ex_env ex_region (GetOrder ''gid://shopify/Order/1''),
         fetch_request ex_env ex_region (Begin ''gid://shopify/Order/1'')])"
proof -
  let ?r1 = "fetch_request ex_env ex_region (GetOrder ''gid://shopify/Order/1'')"
  let ?r2 = "fetch_request ex_env ex_region (Begin ''gid://shopify/Order/1'')"
  let ?d = "no_data\<lparr>orderEditBegin := Some \<lparr>calculatedOrder = None, userErrors = Some []\<rparr>\<rparr>"
  let ?d' = "no_data\<lparr>orderEditBegin := Some bad_payload\<rparr>"
  have s: "[?r1, ?r2] = ?r1 # ?r2 # []" by simp
  have g: "gateway_result (ex_net_begin_empty [?r1] ?r2) = Inr (Some ?d)"
    by (simp add: ex_net_begin_empty_def)
  have c: "\<not> truthy (begin_handle (Some ?d))"
    by (simp add: begin_handle_def calculatedOrderId_def)
  have g': "gateway_result (ex_net_begin_refused [?r1] ?r2) = Inr (Some ?d')"
    by (simp add: ex_net_begin_refused_def)
  have c': "\<not> truthy (begin_handle (Some ?d'))"
    by (simp add: begin_handle_def calculatedOrderId_def bad_payload_def)
  have g'': "gateway_result (ex_net_begin_no_data [?r1] ?r2) = Inr None"
    by (simp add: ex_net_begin_no_data_def)
  have c'': "\<not> truthy (begin_handle None)"
    by (simp add: begin_handle_def)
  from begin_without_handle_stops [OF ex_begin_empty_run s g c]
    begin_without_handle_stops [OF ex_begin_refused_run s g' c']
    begin_without_handle_stops [OF ex_begin_no_data_run s g'' c'']
  show ?thesis
    by (auto simp add: ex_begin_empty_run ex_begin_refused_run ex_begin_no_data_run
        errs_of_def bad_payload_def)
qed

subsection \<open>Price and result of a run\<close>

text \<open>
  From each block on: the requests it adds carry the price it was given, and if it returns a
  response, that is the success body of the source (or, for the begin block, the 500 of a
  missing handle).
\<close>

lemma commit_step_sound:
  assumes t: "truthy (adminToken rg)"
    and o: "commit_step e nt rg rq ord cur p cid issued0 = (out, issued)"
    and a: "list_all (\<lambda>r. carries_price p (req_op r)) issued0"
  shows "list_all (\<lambda>r. carries_price p (req_op r)) issued
       \<and> (\<forall>r. out = Inr r \<longrightarrow> r = okRes (success_body rq ord cur p False))"
  using t o a
  by (auto simp: commit_step_def sgq_token split: sum.splits option.splits)

lemma remove_step_sound:
  assumes t: "truthy (adminToken rg)"
    and o: "remove_step e nt rg rq ord cur p cid issued0 = (out, issued)"
    and a: "list_all (\<lambda>r. carries_price p (req_op r)) issued0"
  shows "list_all (\<lambda>r. carries_price p (req_op r)) issued
       \<and> (\<forall>r. out = Inr r \<longrightarrow> r = okRes (success_body rq ord cur p False))"
proof (cases cur)
  case None
  with o have "commit_step e nt rg rq ord cur p cid issued0 = (out, issued)"
    by (simp add: remove_step_def)
  from commit_step_sound [OF t this a] show ?thesis .
next
  case (Some c)
  let ?r = "fetch_request e rg (Remove cid (sl_id c))"
  have a1: "list_all (\<lambda>r. carries_price p (req_op r)) (issued0 @ [?r])"
    using a by simp
  consider (continue) "commit_step e nt rg rq ord cur p cid (issued0 @ [?r]) = (out, issued)"
    | (stop) "issued = issued0 @ [?r]" "\<forall>r. out \<noteq> Inr r"
    using t o Some
    by (auto simp: remove_step_def sgq_token split: sum.splits option.splits)
  then show ?thesis
  proof cases
    case continue
    from commit_step_sound [OF t this a1] show ?thesis .
  next
    case stop
    with a1 show ?thesis by simp
  qed
qed

lemma add_step_sound:
  assumes t: "truthy (adminToken rg)"
    and o: "add_step e nt rg rq ord cur p cid issued0 = (out, issued)"
    and a: "list_all (\<lambda>r. carries_price p (req_op r)) issued0"
  shows "list_all (\<lambda>r. carries_price p (req_op r)) issued
       \<and> (\<forall>r. out = Inr r \<longrightarrow> r = okRes (success_body rq ord cur p False))"
proof -
  let ?r = "fetch_request e rg (Add cid (String_or_empty (targetShippingTitle rq)) p)"
  have a1: "list_all (\<lambda>r. carries_price p (req_op r)) (issued0 @ [?r])"
    using a by simp
  consider (continue) "remove_step e nt rg rq ord cur p cid (issued0 @ [?r]) = (out, issued)"
    | (stop) "issued = issued0 @ [?r]" "\<forall>r. out \<noteq> Inr r"
    using t o
    by (auto simp: add_step_def sgq_token split: sum.splits option.splits)
  then show ?thesis
  proof cases
    case continue
    from remove_step_sound [OF t this a1] show ?thesis .
  next
    case stop
    with a1 show ?thesis by simp
  qed
qed

lemma begin_step_sound:
  assumes t: "truthy (adminToken rg)"
    and o: "begin_step e nt rg gid rq ord cur p issued0 = (out, issued)"
    and a: "list_all (\<lambda>r. carries_price p (req_op r)) issued0"
  shows "list_all (\<lambda>r. carries_price p (req_op r)) issued
       \<and> (\<forall>r. out = Inr r \<longrightarrow>
             r = okRes (success_body rq ord cur p False)
             \<or> r = \<lparr>res_status = 500, res_body = ErrorBody ''Missing calculatedOrderId'' None\<rparr>)"
proof -
  let ?r = "fetch_request e rg (Begin gid)"
  have a1: "list_all (\<lambda>r. carries_price p (req_op r)) (issued0 @ [?r])"
    using a by simp
  consider (continue) cid where
      "add_step e nt rg rq ord cur p cid (issued0 @ [?r]) = (out, issued)"
    | (stop) "issued = issued0 @ [?r]"
        "\<forall>r. out = Inr r \<longrightarrow>
           r = \<lparr>res_status = 500, res_body = ErrorBody ''Missing calculatedOrderId'' None\<rparr>"
    using t o
    by (auto simp: begin_step_def sgq_token split: sum.splits option.splits if_splits)
  then show ?thesis
  proof cases
    case continue
    from add_step_sound [OF t this a1] show ?thesis by blast
  next
    case stop
    with a1 show ?thesis by simp
  qed
qed

text \<open>The checks of the request do not read the dry-run flag or the price.\<close>

lemma validate_dryRun [simp]: "validate e (rq\<lparr>dryRun := b\<rparr>) = validate e rq"
  by (auto simp: validate_def Let_def split: option.splits)

lemma validate_price [simp]: "validate e (rq\<lparr>targetShippingPrice := x\<rparr>) = validate e rq"
  by (auto simp: validate_def Let_def split: option.splits)

lemma validate_Inl_error:
  "validate e rq = Inl r \<Longrightarrow> res_status r \<noteq> 200 \<and> (\<exists>m dt. res_body r = ErrorBody m dt)"
  by (auto simp: validate_def Let_def errRes_def split: if_splits option.splits)

lemma success_body_dry:
  "success_body rq ord cur p True = (success_body (rq\<lparr>dryRun := False\<rparr>) ord cur p False)\<lparr>res_dryRun := True\<rparr>"
  by (simp add: success_body_def)

lemma determined_price_dryRun [simp]:
  "determined_price pf (rq\<lparr>dryRun := b\<rparr>) cur = determined_price pf rq cur"
  by (cases cur) (simp_all add: determined_price_def)

text \<open>The part of a run that precedes the dry-run test, in one equation.\<close>

lemma fetch_step_unfold:
  assumes t: "truthy (adminToken rg)"
  shows "fetch_step e pf nt rg gid rq =
     (let r1 = fetch_request e rg (GetOrder gid) in
      case gateway_result (nt [] r1) of
        Inl x \<Rightarrow> (Inl x, [r1])
      | Inr None \<Rightarrow> (Inl (TypeError ''order''), [r1])
      | Inr (Some d1) \<Rightarrow>
          (case data_order d1 of
             None \<Rightarrow> (Inr (errRes e 404 ''Order not found'' None), [r1])
           | Some ord \<Rightarrow>
               let cur = current_line ord; p = determined_price pf rq cur in
               if \<not> isFinite p
               then (case cur of
                       Some c \<Rightarrow> (Inr (errRes e 500 ''Invalid existing shipping price''
                                          (map_option DStr (amountStr c))), [r1])
                     | None \<Rightarrow> (Inr (errRes e 400 ''Invalid targetShippingPrice''
                                        (map_option price_details (targetShippingPrice rq))), [r1]))
               else if dryRun rq then (Inr (okRes (success_body rq ord cur p True)), [r1])
               else begin_step e nt rg gid rq ord cur p [r1]))"
  using t
  by (auto simp: fetch_step_def price_step_def dry_run_step_def determined_price_def Let_def
      sgq_token split: sum.splits option.splits)

lemma price_determination_aux:
  assumes v: "validate e rq = Inr (rg, gid)"
    and f: "shopifyGraphQL e nt rg (GetOrder gid) [] = (Inr (Some d1), issued1)"
    and o: "data_order d1 = Some ord"
    and h: "handler e pf nt rq = (res, issued)"
  shows "(if isFinite (determined_price pf rq (current_line ord))
          then price_used (determined_price pf rq (current_line ord)) res issued
          else issued = issued1
               \<and> res_status res = (case current_line ord of Some c \<Rightarrow> 500 | None \<Rightarrow> 400)
               \<and> (\<exists>dt. res_body res =
                      ErrorBody (case current_line ord of
                                   Some c \<Rightarrow> ''Invalid existing shipping price''
                                 | None \<Rightarrow> ''Invalid targetShippingPrice'') dt))"
proof -
  let ?p = "determined_price pf rq (current_line ord)"
  have t: "truthy (adminToken rg)"
    using f by (auto simp: shopifyGraphQL_def split: if_splits)
  from f t have i1: "issued1 = [fetch_request e rg (GetOrder gid)]"
    by (simp add: sgq_token)
  show ?thesis
  proof (cases "isFinite ?p")
    case False
    with v f o h show ?thesis
      by (auto simp: handler_def fetch_step_def price_step_def determined_price_def Let_def
          errRes_def split: option.splits)
  next
    case True
    show ?thesis
    proof (cases "dryRun rq")
      case d: True
      with True v f o h i1 show ?thesis
        by (auto simp: handler_def fetch_step_def price_step_def dry_run_step_def
            determined_price_def Let_def price_used_def okRes_def success_body_def
            split: option.splits)
    next
      case d: False
      obtain out where b: "begin_step e nt rg gid rq ord (current_line ord) ?p issued1 = (out, issued)"
        and r: "res = (case out of Inl x \<Rightarrow> errRes e 500 ''Server error'' (Some (DThrown x))
                         | Inr r \<Rightarrow> r)"
        using True v f o h d
        by (auto simp: handler_def fetch_step_def price_step_def dry_run_step_def
            determined_price_def Let_def split: option.splits prod.splits sum.splits)
      have a: "list_all (\<lambda>r. carries_price ?p (req_op r)) issued1"
        using i1 by simp
      from begin_step_sound [OF t b a] r True show ?thesis
        by (cases out)
           (auto simp: price_used_def errRes_def okRes_def success_body_def
              split: option.splits)
    qed
  qed
qed

text \<open>More facts about the example runs.\<close>

lemma ex_order_fields [simp]:
  "sl_id ex_line = ''L1''" "sl_title ex_line = ''Standard''" "order_name ex_order = ''#1001''"
  by (simp_all add: ex_line_def ex_order_def)

lemma ex_full_run:
  "handler ex_env ex_pf (ex_net ex_order) ex_request =
     (\<lparr>res_status = 200,
       res_body = OkBody
         \<lparr>res_dryRun = False, res_shopDomain = ''demo-uk.myshopify.com'',
          res_orderName = ''#1001'', res_mode = ''replace'',
          res_from = Some \<lparr>lv_id = ''L1'', lv_title = ''Standard'', lv_price = Finite 5\<rparr>,
          res_to = \<lparr>tv_title = ''DHL_PAKET::Standard'', tv_price = Finite 5\<rparr>\<rparr>\<rparr>,
      [fetch_request ex_env ex_region (GetOrder ''gid://shopify/Order/1''),
       fetch_request ex_env ex_region (Begin ''gid://shopify/Order/1''),
       fetch_request ex_env ex_region (Add ''C1'' ''DHL_PAKET::Standard'' (Finite 5)),
       fetch_request ex_env ex_region (Remove ''C1'' ''L1''),
       fetch_request ex_env ex_region (Commit ''C1'')])"
  by (simp add: handler_def ex_validate fetch_step_def price_step_def dry_run_step_def
      begin_step_def add_step_def remove_step_def commit_step_def sgq_token ex_token
      ex_net_def no_data_def good_payload_def assertUserErrors_def errs_of_def
      calculatedOrderId_def okRes_def success_body_def Let_def)

lemma data_order_no_data: "data_order (no_data\<lparr>data_order := Some ord\<rparr>) = Some ord"
  by simp

lemma ex_fetch:
  "shopifyGraphQL ex_env (ex_net ord) ex_region (GetOrder g) [] =
     (Inr (Some (no_data\<lparr>data_order := Some ord\<rparr>)),
      [fetch_request ex_env ex_region (GetOrder g)])"
  by (simp add: sgq_token ex_token ex_net_def)

lemma ex_request_live: "ex_request\<lparr>dryRun := False\<rparr> = ex_request"
  by (simp add: ex_request_def)



lemma add_step_first:
  assumes t: "truthy (adminToken rg)"
    and o: "add_step e nt rg rq ord cur p cid issued0 = (out, issued)"
  shows "prefix (issued0 @ [fetch_request e rg
                              (Add cid (String_or_empty (targetShippingTitle rq)) p)]) issued"
proof -
  let ?r = "fetch_request e rg (Add cid (String_or_empty (targetShippingTitle rq)) p)"
  have "\<exists>new. issued = (issued0 @ [?r]) @ new"
    using t o remove_step_extends [OF t, of e nt rq ord cur p cid "issued0 @ [?r]"]
    by (auto simp: add_step_def sgq_token split: sum.splits option.splits)
  then show ?thesis unfolding prefix_def by blast
qed

lemma begin_step_first:
  assumes t: "truthy (adminToken rg)"
    and o: "begin_step e nt rg gid rq ord cur p issued0 = (out, issued)"
  shows "prefix (issued0 @ [fetch_request e rg (Begin gid)]) issued
       \<and> (case gateway_result (nt issued0 (fetch_request e rg (Begin gid))) of
             Inl x \<Rightarrow> True
           | Inr None \<Rightarrow> True
           | Inr (Some d2) \<Rightarrow>
               (case calculatedOrderId (orderEditBegin d2) of
                  None \<Rightarrow> True
                | Some cid \<Rightarrow>
                    if errs_of (orderEditBegin d2) = [] \<and> cid \<noteq> []
                    then prefix
                           (issued0 @
                            [fetch_request e rg (Begin gid),
                             fetch_request e rg
                               (Add cid (String_or_empty (targetShippingTitle rq)) p)])
                           issued
                    else True))"
proof -
  let ?r = "fetch_request e rg (Begin gid)"
  consider (continue) cid d2 where
      "add_step e nt rg rq ord cur p cid (issued0 @ [?r]) = (out, issued)"
      "gateway_result (nt issued0 ?r) = Inr (Some d2)"
      "calculatedOrderId (orderEditBegin d2) = Some cid"
    | (stop) "issued = issued0 @ [?r]"
        "\<forall>d2 cid. gateway_result (nt issued0 ?r) = Inr (Some d2)
            \<and> calculatedOrderId (orderEditBegin d2) = Some cid
            \<longrightarrow> \<not> (errs_of (orderEditBegin d2) = [] \<and> cid \<noteq> [])"
    using t o
    by (auto simp: begin_step_def sgq_token assert_Some assert_None
        split: sum.splits option.splits if_splits)
  then show ?thesis
  proof cases
    case continue
    from add_step_first [OF t continue(1)]
    have a: "prefix (issued0 @ [?r, fetch_request e rg
                (Add cid (String_or_empty (targetShippingTitle rq)) p)]) issued"
      by simp
    then have "prefix (issued0 @ [?r]) issued"
      by (auto simp: prefix_def)
    with a continue(2,3) show ?thesis by simp
  next
    case stop
    then show ?thesis
      by (auto split: sum.splits option.splits)
  qed
qed

lemma price_accepted_run:
  assumes v: "validate e rq = Inr (rg, gid)"
    and f: "shopifyGraphQL e nt rg (GetOrder gid) [] = (Inr (Some d1), issued1)"
    and o: "data_order d1 = Some ord"
    and h: "handler e pf nt rq = (res, issued)"
    and fin: "isFinite (determined_price pf rq (current_line ord))"
  shows "price_accepted e nt rg gid rq issued1 (determined_price pf rq (current_line ord))
           res issued"
proof -
  let ?p = "determined_price pf rq (current_line ord)"
  have t: "truthy (adminToken rg)"
    using f by (auto simp: shopifyGraphQL_def split: if_splits)
  from f t have i1: "issued1 = [fetch_request e rg (GetOrder gid)]"
    and g: "gateway_result (nt [] (fetch_request e rg (GetOrder gid))) = Inr (Some d1)"
    by (simp_all add: sgq_token)
  from price_determination_aux [OF v f o h] fin
  have u: "price_used ?p res issued" by simp
  show ?thesis
  proof (cases "dryRun rq")
    case True
    with v h g o fin i1 have "res = okRes (success_body rq ord (current_line ord) ?p True)"
      "issued = issued1"
      by (simp_all add: handler_def fetch_step_unfold [OF t] Let_def)
    with u True show ?thesis
      by (simp add: price_accepted_def okRes_def success_body_def)
  next
    case False
    obtain out where
      b: "begin_step e nt rg gid rq ord (current_line ord) ?p issued1 = (out, issued)"
      using v h g o fin False i1
      by (auto simp: handler_def fetch_step_unfold [OF t] Let_def
          split: prod.splits sum.splits)
    from begin_step_first [OF t b] u False show ?thesis
      by (simp add: price_accepted_def)
  qed
qed

lemma price_rejected_run:
  assumes v: "validate e rq = Inr (rg, gid)"
    and f: "shopifyGraphQL e nt rg (GetOrder gid) [] = (Inr (Some d1), issued1)"
    and o: "data_order d1 = Some ord"
    and h: "handler e pf nt rq = (res, issued)"
    and fin: "\<not> isFinite (determined_price pf rq (current_line ord))"
  shows "price_rejected (case current_line ord of Some c \<Rightarrow> 500 | None \<Rightarrow> 400)
           (case current_line ord of
              Some c \<Rightarrow> ''Invalid existing shipping price''
            | None \<Rightarrow> ''Invalid targetShippingPrice'') issued1 res issued"
  using price_determination_aux [OF v f o h] fin
  by (auto simp: price_rejected_def)

text \<open>
  Claim C3. Take a validated request whose order fetch returns an order.
  With a current line: the price is the parse of the line's
  \<^verbatim>\<open>originalPriceSet.shopMoney.amount\<close>. If that is finite it is accepted: a dry run answers
  200 with it, a live run goes on to the begin call and, when begin delivers a handle, to
  the add call at that price. If it is not finite, or the amount is absent, the answer is
  500 \<^verbatim>\<open>Invalid existing shipping price\<close> and nothing is issued after the fetch.
  Without a current line: the price is 0 when \<^verbatim>\<open>targetShippingPrice\<close> is absent, and
  otherwise its parse (a number being its own parse); a finite one is accepted in the same
  sense, and one that is not finite is answered 400 \<^verbatim>\<open>Invalid targetShippingPrice\<close> with
  nothing issued after the fetch.
\<close>

theorem price_determination:
  assumes v: "validate e rq = Inr (rg, gid)"
    and f: "shopifyGraphQL e nt rg (GetOrder gid) [] = (Inr (Some d1), issued1)"
    and o: "data_order d1 = Some ord"
    and h: "handler e pf nt rq = (res, issued)"
  shows "(\<forall>c ps m a. current_line ord = Some c \<and> originalPriceSet c = Some ps
             \<and> shopMoney ps = Some m \<and> amount m = Some a \<longrightarrow>
            (if isFinite (pf a)
             then price_accepted e nt rg gid rq issued1 (pf a) res issued
             else price_rejected 500 ''Invalid existing shipping price'' issued1 res issued))
       \<and> (\<forall>c. current_line ord = Some c
             \<and> (originalPriceSet c = None
                \<or> (\<exists>ps. originalPriceSet c = Some ps
                     \<and> (shopMoney ps = None
                        \<or> (\<exists>m. shopMoney ps = Some m \<and> amount m = None)))) \<longrightarrow>
            price_rejected 500 ''Invalid existing shipping price'' issued1 res issued)
       \<and> (current_line ord = None \<and> targetShippingPrice rq = None \<longrightarrow>
            price_accepted e nt rg gid rq issued1 (Finite 0) res issued)
       \<and> (\<forall>n. current_line ord = None \<and> targetShippingPrice rq = Some (PriceNum n) \<longrightarrow>
            (if isFinite n
             then price_accepted e nt rg gid rq issued1 n res issued
             else price_rejected 400 ''Invalid targetShippingPrice'' issued1 res issued))
       \<and> (\<forall>s. current_line ord = None \<and> targetShippingPrice rq = Some (PriceStr s) \<longrightarrow>
            (if isFinite (pf s)
             then price_accepted e nt rg gid rq issued1 (pf s) res issued
             else price_rejected 400 ''Invalid targetShippingPrice'' issued1 res issued))"
proof -
  note acc = price_accepted_run [OF v f o h]
  note rej = price_rejected_run [OF v f o h]
  show ?thesis
  proof (intro conjI allI impI)
    fix c ps m a
    assume "current_line ord = Some c \<and> originalPriceSet c = Some ps
             \<and> shopMoney ps = Some m \<and> amount m = Some a"
    then have "current_line ord = Some c" "determined_price pf rq (current_line ord) = pf a"
      by (simp_all add: determined_price_def parseFloat_opt_def amountStr_def)
    with acc rej show "if isFinite (pf a)
             then price_accepted e nt rg gid rq issued1 (pf a) res issued
             else price_rejected 500 ''Invalid existing shipping price'' issued1 res issued"
      by (cases "isFinite (pf a)") simp_all
  next
    fix c
    assume "current_line ord = Some c
             \<and> (originalPriceSet c = None
                \<or> (\<exists>ps. originalPriceSet c = Some ps
                     \<and> (shopMoney ps = None
                        \<or> (\<exists>m. shopMoney ps = Some m \<and> amount m = None))))"
    then have "current_line ord = Some c" "determined_price pf rq (current_line ord) = NaN"
      by (auto simp: determined_price_def parseFloat_opt_def amountStr_def)
    with rej show "price_rejected 500 ''Invalid existing shipping price'' issued1 res issued"
      by simp
  next
    assume "current_line ord = None \<and> targetShippingPrice rq = None"
    then have "current_line ord = None" "determined_price pf rq (current_line ord) = Finite 0"
      by (simp_all add: determined_price_def)
    with acc show "price_accepted e nt rg gid rq issued1 (Finite 0) res issued"
      by simp
  next
    fix n
    assume "current_line ord = None \<and> targetShippingPrice rq = Some (PriceNum n)"
    then have "current_line ord = None" "determined_price pf rq (current_line ord) = n"
      by (simp_all add: determined_price_def)
    with acc rej show "if isFinite n
             then price_accepted e nt rg gid rq issued1 n res issued
             else price_rejected 400 ''Invalid targetShippingPrice'' issued1 res issued"
      by (cases "isFinite n") simp_all
  next
    fix s
    assume "current_line ord = None \<and> targetShippingPrice rq = Some (PriceStr s)"
    then have "current_line ord = None" "determined_price pf rq (current_line ord) = pf s"
      by (simp_all add: determined_price_def)
    with acc rej show "if isFinite (pf s)
             then price_accepted e nt rg gid rq issued1 (pf s) res issued
             else price_rejected 400 ''Invalid targetShippingPrice'' issued1 res issued"
      by (cases "isFinite (pf s)") simp_all
  qed
qed

lemma ex_begin_answer:
  "gateway_result (ex_net ord issued0 (fetch_request ex_env ex_region (Begin g)))
     = Inr (Some (no_data\<lparr>orderEditBegin := Some good_payload\<rparr>))"
  by (simp add: ex_net_def)

lemma ex_good_payload [simp]:
  "calculatedOrderId (Some good_payload) = Some ''C1''"
  "errs_of (Some good_payload) = []"
  by (simp_all add: calculatedOrderId_def errs_of_def good_payload_def)

theorem price_determination_witness:
  "prefix
     [fetch_request ex_env ex_region (GetOrder ''gid://shopify/Order/1''),
      fetch_request ex_env ex_region (Begin ''gid://shopify/Order/1''),
      fetch_request ex_env ex_region (Add ''C1'' ''DHL_PAKET::Standard'' (Finite 5))]
     (snd (handler ex_env ex_pf (ex_net ex_order) ex_request))
   \<and> snd (handler ex_env ex_pf (ex_net ex_order) (ex_request\<lparr>dryRun := True\<rparr>))
       = [fetch_request ex_env ex_region (GetOrder ''gid://shopify/Order/1'')]
   \<and> res_status (fst (handler ex_env ex_pf (ex_net ex_order) (ex_request\<lparr>dryRun := True\<rparr>)))
       = 200
   \<and> (case res_body (fst (handler ex_env ex_pf (ex_net ex_order)
                             (ex_request\<lparr>dryRun := True\<rparr>))) of
         ErrorBody msg dt \<Rightarrow> False
       | OkBody b \<Rightarrow> res_dryRun b \<and> tv_price (res_to b) = Finite 5)
   \<and> price_rejected 500 ''Invalid existing shipping price''
        [fetch_request ex_env ex_region (GetOrder ''gid://shopify/Order/1'')]
        (fst (handler ex_env ex_pf
            (ex_net (ex_order\<lparr>shippingLines := Some \<lparr>nodes = Some [Some (ex_line\<lparr>originalPriceSet := None\<rparr>)]\<rparr>\<rparr>))
            ex_request))
        (snd (handler ex_env ex_pf
            (ex_net (ex_order\<lparr>shippingLines := Some \<lparr>nodes = Some [Some (ex_line\<lparr>originalPriceSet := None\<rparr>)]\<rparr>\<rparr>))
            ex_request))
   \<and> prefix
     [fetch_request ex_env ex_region (GetOrder ''gid://shopify/Order/1''),
      fetch_request ex_env ex_region (Begin ''gid://shopify/Order/1''),
      fetch_request ex_env ex_region (Add ''C1'' ''DHL_PAKET::Standard'' (Finite 0))]
     (snd (handler ex_env ex_pf (ex_net (ex_order\<lparr>shippingLines := None\<rparr>)) ex_request))
   \<and> prefix
     [fetch_request ex_env ex_region (GetOrder ''gid://shopify/Order/1''),
      fetch_request ex_env ex_region (Begin ''gid://shopify/Order/1''),
      fetch_request ex_env ex_region (Add ''C1'' ''DHL_PAKET::Standard'' (Finite 12))]
     (snd (handler ex_env ex_pf (ex_net (ex_order\<lparr>shippingLines := None\<rparr>))
            (ex_request\<lparr>targetShippingPrice := Some (PriceNum (Finite 12))\<rparr>)))
   \<and> price_rejected 400 ''Invalid targetShippingPrice''
        [fetch_request ex_env ex_region (GetOrder ''gid://shopify/Order/1'')]
        (fst (handler ex_env ex_pf (ex_net (ex_order\<lparr>shippingLines := None\<rparr>))
            (ex_request\<lparr>targetShippingPrice := Some (PriceStr ''free'')\<rparr>)))
        (snd (handler ex_env ex_pf (ex_net (ex_order\<lparr>shippingLines := None\<rparr>))
            (ex_request\<lparr>targetShippingPrice := Some (PriceStr ''free'')\<rparr>)))"
proof -
  let ?g = "''gid://shopify/Order/1''"
  let ?o2 = "ex_order\<lparr>shippingLines := Some \<lparr>nodes = Some [Some (ex_line\<lparr>originalPriceSet := None\<rparr>)]\<rparr>\<rparr>"
  let ?o3 = "ex_order\<lparr>shippingLines := None\<rparr>"
  let ?dry = "ex_request\<lparr>dryRun := True\<rparr>"
  let ?rq12 = "ex_request\<lparr>targetShippingPrice := Some (PriceNum (Finite 12))\<rparr>"
  let ?rqf = "ex_request\<lparr>targetShippingPrice := Some (PriceStr ''free'')\<rparr>"
  have vd: "validate ex_env ?dry = Inr (ex_region, ?g)"
    and v12: "validate ex_env ?rq12 = Inr (ex_region, ?g)"
    and vf: "validate ex_env ?rqf = Inr (ex_region, ?g)"
    by (simp_all add: ex_validate)
  have c2: "current_line ?o2 = Some (ex_line\<lparr>originalPriceSet := None\<rparr>)"
    and c3: "current_line ?o3 = None"
    by (simp_all add: current_line_def)
  have l: "originalPriceSet ex_line = Some \<lparr>shopMoney = Some \<lparr>amount = Some ''5.00''\<rparr>\<rparr>"
    by (simp add: ex_line_def)
  have p5: "ex_pf ''5.00'' = Finite 5" and pfree: "\<not> isFinite (ex_pf ''free'')"
    by (simp_all add: ex_pf_def)
  note live = price_determination [OF ex_validate ex_fetch [of ex_order] data_order_no_data
        surjective_pairing, where pf = ex_pf]
  note dry = price_determination [OF vd ex_fetch [of ex_order] data_order_no_data
        surjective_pairing, where pf = ex_pf]
  note bad = price_determination [OF ex_validate ex_fetch [of ?o2] data_order_no_data
        surjective_pairing, where pf = ex_pf]
  note zero = price_determination [OF ex_validate ex_fetch [of ?o3] data_order_no_data
        surjective_pairing, where pf = ex_pf]
  note twelve = price_determination [OF v12 ex_fetch [of ?o3] data_order_no_data
        surjective_pairing, where pf = ex_pf]
  note free = price_determination [OF vf ex_fetch [of ?o3] data_order_no_data
        surjective_pairing, where pf = ex_pf]
  have a1: "price_accepted ex_env (ex_net ex_order) ex_region ?g ex_request
              [fetch_request ex_env ex_region (GetOrder ?g)] (Finite 5)
              (fst (handler ex_env ex_pf (ex_net ex_order) ex_request))
              (snd (handler ex_env ex_pf (ex_net ex_order) ex_request))"
    using live l p5 by auto
  have a2: "price_accepted ex_env (ex_net ex_order) ex_region ?g ?dry
              [fetch_request ex_env ex_region (GetOrder ?g)] (Finite 5)
              (fst (handler ex_env ex_pf (ex_net ex_order) ?dry))
              (snd (handler ex_env ex_pf (ex_net ex_order) ?dry))"
    using dry l p5 by auto
  have a3: "price_rejected 500 ''Invalid existing shipping price''
              [fetch_request ex_env ex_region (GetOrder ?g)]
              (fst (handler ex_env ex_pf (ex_net ?o2) ex_request))
              (snd (handler ex_env ex_pf (ex_net ?o2) ex_request))"
    using bad c2 by auto
  have a4: "price_accepted ex_env (ex_net ?o3) ex_region ?g ex_request
              [fetch_request ex_env ex_region (GetOrder ?g)] (Finite 0)
              (fst (handler ex_env ex_pf (ex_net ?o3) ex_request))
              (snd (handler ex_env ex_pf (ex_net ?o3) ex_request))"
    using zero c3 by auto
  have a5: "price_accepted ex_env (ex_net ?o3) ex_region ?g ?rq12
              [fetch_request ex_env ex_region (GetOrder ?g)] (Finite 12)
              (fst (handler ex_env ex_pf (ex_net ?o3) ?rq12))
              (snd (handler ex_env ex_pf (ex_net ?o3) ?rq12))"
    using twelve c3 by auto
  have a6: "price_rejected 400 ''Invalid targetShippingPrice''
              [fetch_request ex_env ex_region (GetOrder ?g)]
              (fst (handler ex_env ex_pf (ex_net ?o3) ?rqf))
              (snd (handler ex_env ex_pf (ex_net ?o3) ?rqf))"
    using free c3 pfree by auto
  from a1 a2 a3 a4 a5 a6 show ?thesis
    by (simp add: price_accepted_def ex_begin_answer)
qed

text \<open>
  Claim C2. Let a request have \<^verbatim>\<open>dryRun: true\<close>. Its run issues no mutating call, and at
  most one request at all (the order fetch). If it answers 200, the body carries
  \<^verbatim>\<open>dryRun: true\<close>; if it does not, the live run of the same request against the same
  remote ends in the very same response and requests. Whenever the live run answers a
  success body, the dry run answers that body with \<^verbatim>\<open>dryRun: true\<close> added: same mode,
  \<^verbatim>\<open>from\<close> and \<^verbatim>\<open>to\<close>. And the dry run does answer 200 as soon as the request is
  validated, the fetch returns an order and the determined price is finite.
\<close>

theorem dry_run_issues_no_mutation:
  assumes d: "dryRun rq"
    and h: "handler e pf nt rq = (res, issued)"
    and l: "handler e pf nt (rq\<lparr>dryRun := False\<rparr>) = (res', issued')"
  shows "list_all (\<lambda>r. \<not> mutating (req_op r)) issued
       \<and> length issued \<le> 1
       \<and> (res_status res = 200 \<longrightarrow> (\<exists>b. res_body res = OkBody b \<and> res_dryRun b))
       \<and> (res_status res \<noteq> 200 \<longrightarrow> res' = res \<and> issued' = issued)
       \<and> (\<forall>b'. res_body res' = OkBody b' \<longrightarrow> res = okRes (b'\<lparr>res_dryRun := True\<rparr>))
       \<and> (\<forall>rg gid d1 issued1 ord.
             validate e rq = Inr (rg, gid)
             \<and> shopifyGraphQL e nt rg (GetOrder gid) [] = (Inr (Some d1), issued1)
             \<and> data_order d1 = Some ord
             \<and> isFinite (determined_price pf rq (current_line ord)) \<longrightarrow>
             issued = issued1
             \<and> res = okRes (success_body rq ord (current_line ord)
                              (determined_price pf rq (current_line ord)) True))"
proof (cases "validate e rq")
  case (Inl r)
  with h l validate_Inl_error [OF Inl] show ?thesis
    by (auto simp: handler_def)
next
  case (Inr p)
  then obtain rg gid where v: "validate e rq = Inr (rg, gid)" by (cases p) auto
  show ?thesis
  proof (cases "truthy (adminToken rg)")
    case False
    with v h l show ?thesis
      by (auto simp: handler_no_token sgq_notoken errRes_def)
  next
    case t: True
    let ?r1 = "fetch_request e rg (GetOrder gid)"
    let ?rq' = "rq\<lparr>dryRun := False\<rparr>"
    show ?thesis
    proof (cases "\<exists>d1 ord. gateway_result (nt [] ?r1) = Inr (Some d1) \<and> data_order d1 = Some ord
                     \<and> isFinite (determined_price pf rq (current_line ord))")
      case False
      with v h l d show ?thesis
        by (auto simp: handler_def fetch_step_unfold [OF t] sgq_token [OF t] Let_def errRes_def
            split: sum.splits option.splits if_splits)
    next
      case True
      then obtain d1 ord where g: "gateway_result (nt [] ?r1) = Inr (Some d1)"
        and o: "data_order d1 = Some ord"
        and fin: "isFinite (determined_price pf rq (current_line ord))"
        by blast
      let ?cur = "current_line ord"
      let ?p = "determined_price pf rq ?cur"
      from v h d g o fin
      have r: "res = okRes (success_body rq ord ?cur ?p True)" "issued = [?r1]"
        by (simp_all add: handler_def fetch_step_unfold [OF t] Let_def)
      obtain out' where
        b: "begin_step e nt rg gid ?rq' ord ?cur ?p [?r1] = (out', issued')"
        and r': "res' = (case out' of Inl x \<Rightarrow> errRes e 500 ''Server error'' (Some (DThrown x))
                         | Inr r \<Rightarrow> r)"
        using v l g o fin
        by (auto simp: handler_def fetch_step_unfold [OF t] Let_def
            split: prod.splits sum.splits)
      have a: "list_all (\<lambda>r. carries_price ?p (req_op r)) [?r1]" by simp
      from begin_step_sound [OF t b a] r'
      have live: "\<forall>b'. res_body res' = OkBody b' \<longrightarrow> b' = success_body ?rq' ord ?cur ?p False"
        by (cases out') (auto simp: errRes_def okRes_def)
      have c5: "\<forall>b'. res_body res' = OkBody b' \<longrightarrow> res = okRes (b'\<lparr>res_dryRun := True\<rparr>)"
        using r live by (auto simp: success_body_dry)
      have c6: "\<forall>rg gid d1 issued1 ord.
             validate e rq = Inr (rg, gid)
             \<and> shopifyGraphQL e nt rg (GetOrder gid) [] = (Inr (Some d1), issued1)
             \<and> data_order d1 = Some ord
             \<and> isFinite (determined_price pf rq (current_line ord)) \<longrightarrow>
             issued = issued1
             \<and> res = okRes (success_body rq ord (current_line ord)
                              (determined_price pf rq (current_line ord)) True)"
        using v r g o by (auto simp: sgq_token [OF t])
      have c1: "list_all (\<lambda>r. \<not> mutating (req_op r)) issued" "length issued \<le> 1"
        using r by simp_all
      have c3: "res_status res = 200" "\<exists>b. res_body res = OkBody b \<and> res_dryRun b"
        using r by (simp_all add: okRes_def success_body_def)
      from c1 c3 c5 c6 show ?thesis by blast
    qed
  qed
qed

theorem dry_run_issues_no_mutation_witness:
  "list_all (\<lambda>r. \<not> mutating (req_op r))
     (snd (handler ex_env ex_pf (ex_net ex_order) (ex_request\<lparr>dryRun := True\<rparr>)))
   \<and> snd (handler ex_env ex_pf (ex_net ex_order) (ex_request\<lparr>dryRun := True\<rparr>))
       = [fetch_request ex_env ex_region (GetOrder ''gid://shopify/Order/1'')]
   \<and> fst (handler ex_env ex_pf (ex_net ex_order) (ex_request\<lparr>dryRun := True\<rparr>))
       = \<lparr>res_status = 200,
          res_body = OkBody
            \<lparr>res_dryRun = True, res_shopDomain = ''demo-uk.myshopify.com'',
             res_orderName = ''#1001'', res_mode = ''replace'',
             res_from = Some \<lparr>lv_id = ''L1'', lv_title = ''Standard'', lv_price = Finite 5\<rparr>,
             res_to = \<lparr>tv_title = ''DHL_PAKET::Standard'', tv_price = Finite 5\<rparr>\<rparr>\<rparr>"
proof -
  let ?dry = "ex_request\<lparr>dryRun := True\<rparr>"
  have d: "dryRun ?dry" by simp
  have h: "handler ex_env ex_pf (ex_net ex_order) ?dry
             = (fst (handler ex_env ex_pf (ex_net ex_order) ?dry),
                snd (handler ex_env ex_pf (ex_net ex_order) ?dry))"
    by simp
  have l: "handler ex_env ex_pf (ex_net ex_order) (?dry\<lparr>dryRun := False\<rparr>)
             = (\<lparr>res_status = 200,
       res_body = OkBody
         \<lparr>res_dryRun = False, res_shopDomain = ''demo-uk.myshopify.com'',
          res_orderName = ''#1001'', res_mode = ''replace'',
          res_from = Some \<lparr>lv_id = ''L1'', lv_title = ''Standard'', lv_price = Finite 5\<rparr>,
          res_to = \<lparr>tv_title = ''DHL_PAKET::Standard'', tv_price = Finite 5\<rparr>\<rparr>\<rparr>,
      [fetch_request ex_env ex_region (GetOrder ''gid://shopify/Order/1''),
       fetch_request ex_env ex_region (Begin ''gid://shopify/Order/1''),
       fetch_request ex_env ex_region (Add ''C1'' ''DHL_PAKET::Standard'' (Finite 5)),
       fetch_request ex_env ex_region (Remove ''C1'' ''L1''),
       fetch_request ex_env ex_region (Commit ''C1'')])"
    by (simp add: ex_request_live ex_full_run)
  have v: "validate ex_env ?dry = Inr (ex_region, ''gid://shopify/Order/1'')"
    by (simp add: ex_validate)
  have fin: "isFinite (determined_price ex_pf ?dry (current_line ex_order))"
    by (simp add: determined_price_def)
  from dry_run_issues_no_mutation [OF d h l] v ex_fetch [of ex_order "''gid://shopify/Order/1''"] fin
  have "snd (handler ex_env ex_pf (ex_net ex_order) ?dry)
          = [fetch_request ex_env ex_region (GetOrder ''gid://shopify/Order/1'')]"
    and "fst (handler ex_env ex_pf (ex_net ex_order) ?dry)
          = okRes (success_body ?dry ex_order (current_line ex_order)
                     (determined_price ex_pf ?dry (current_line ex_order)) True)"
    by (metis data_order_no_data)+
  then show ?thesis
    by (simp add: okRes_def success_body_def determined_price_def)
qed

end
